theory Spec2Isabelle
  imports Complex_Main "HOL-Library.Word" "HOL-Library.Signed_Division"
begin

unbundle bit_operations_syntax

section \<open>messages.hpp\<close>

text \<open>
  The enumeration \<open>MsgType : int32_t\<close>. A \<open>Message\<close> stores the type as a plain
  \<open>int32_t\<close> and the peer casts it back in a \<open>switch\<close> with a \<open>default\<close> branch, so
  the type of a message is modelled as the integer the record holds. All \<open>int\<close> and
  \<open>int32_t\<close> values are modelled as \<open>int\<close>: ticks, ranks and UIDs stay far from the
  32-bit bounds (signed overflow would be undefined behaviour in the source).
\<close>

definition HEARTBEAT :: int where "HEARTBEAT = 1"
definition ELECTION :: int where "ELECTION = 2"
definition OK :: int where "OK = 3"
definition COORDINATOR :: int where "COORDINATOR = 4"
definition PING :: int where "PING = 5"
definition ACK :: int where "ACK = 6"
definition STATE_REPORT :: int where "STATE_REPORT = 7"

lemmas MsgType_defs =
  HEARTBEAT_def ELECTION_def OK_def COORDINATOR_def PING_def ACK_def STATE_REPORT_def

record Message =
  m_type :: int
  m_tick :: int
  m_src_uid :: int
  m_dst_uid :: int
  m_leader_uid :: int
  m_aux :: int

section \<open>logger.hpp: the per-tick message event buffer\<close>

definition MAX_MSG_EVENTS_PER_TICK :: int where
  "MAX_MSG_EVENTS_PER_TICK = 32"

record MessageEvent =
  e_tick :: int
  e_type :: int
  e_src_uid :: int
  e_dst_uid :: int
  e_dropped :: int
  e_direction :: int

text \<open>
  \<open>MessageBuffer\<close> is a fixed array \<open>events_[MAX_MSG_EVENTS_PER_TICK]\<close> and a counter
  \<open>count_\<close>. The array is a list of 32 slots; the slots at and after \<open>count\<close> hold
  whatever was written there before.
\<close>

record MessageBuffer =
  events :: "MessageEvent list"
  count :: int

definition blank_event :: MessageEvent where
  "blank_event = \<lparr>e_tick = 0, e_type = 0, e_src_uid = 0, e_dst_uid = 0,
                   e_dropped = 0, e_direction = 0\<rparr>"

text \<open>The constructor \<open>MessageBuffer() : count_(0)\<close>.\<close>

definition new_buffer :: MessageBuffer where
  "new_buffer = \<lparr>events = replicate 32 blank_event, count = 0\<rparr>"

definition clear :: "MessageBuffer \<Rightarrow> MessageBuffer" where
  "clear b = b\<lparr>count := 0\<rparr>"

text \<open>
  \<open>add_event\<close>: returns at once when the buffer is full, else writes slot \<open>count_\<close>
  and increments. The two padding words are not modelled.
\<close>

definition add_event ::
  "int \<Rightarrow> int \<Rightarrow> int \<Rightarrow> int \<Rightarrow> bool \<Rightarrow> bool \<Rightarrow> MessageBuffer \<Rightarrow> MessageBuffer" where
  "add_event tick type src_uid dst_uid dropped is_recv b =
     (if count b \<ge> MAX_MSG_EVENTS_PER_TICK then b
      else b\<lparr>events := (events b)[nat (count b) :=
                  \<lparr>e_tick = tick, e_type = type, e_src_uid = src_uid, e_dst_uid = dst_uid,
                   e_dropped = (if dropped then 1 else 0),
                   e_direction = (if is_recv then 1 else 0)\<rparr>],
             count := count b + 1\<rparr>)"

definition log_send :: "int \<Rightarrow> Message \<Rightarrow> int \<Rightarrow> bool \<Rightarrow> MessageBuffer \<Rightarrow> MessageBuffer" where
  "log_send tick m dst_uid dropped b =
     add_event tick (m_type m) (m_src_uid m) dst_uid dropped False b"

definition log_recv :: "int \<Rightarrow> Message \<Rightarrow> MessageBuffer \<Rightarrow> MessageBuffer" where
  "log_recv tick m b =
     add_event tick (m_type m) (m_src_uid m) (m_dst_uid m) False True b"

text \<open>
  What the worker hands to the controller at harvest: \<open>data()\<close> up to \<open>count()\<close>.
\<close>

definition recorded :: "MessageBuffer \<Rightarrow> MessageEvent list" where
  "recorded b = take (nat (count b)) (events b)"

text \<open>Well-formedness of a buffer: the counter indexes the 32-slot array.\<close>

definition buf_ok :: "MessageBuffer \<Rightarrow> bool" where
  "buf_ok b = (0 \<le> count b \<and> count b \<le> MAX_MSG_EVENTS_PER_TICK \<and> length (events b) = 32)"

section \<open>failure.hpp\<close>

text \<open>\<open>mix_seed\<close> on \<open>uint64_t\<close>: every operation wraps modulo \<open>2 ^ 64\<close>.\<close>

definition mix_seed :: "64 word \<Rightarrow> 64 word \<Rightarrow> 64 word" where
  "mix_seed base ident =
     (let x = base XOR (ident + 0x9e3779b97f4a7c15);
          x = x XOR (drop_bit 30 x);
          x = x * 0xbf58476d1ce4e5b9;
          x = x XOR (drop_bit 27 x);
          x = x * 0x94d049bb133111eb;
          x = x XOR (drop_bit 31 x)
      in x)"

text \<open>
  The standard library's random number machinery (\<open>std::mt19937_64\<close>,
  \<open>std::uniform_real_distribution\<close>, \<open>std::uniform_int_distribution\<close>,
  \<open>std::discrete_distribution\<close>) is not code of the repository. It is a parameter of
  the model: an engine state of type \<open>'g\<close> with the operations the code calls on it.
  Each draw returns the value and the advanced engine.
\<close>

record 'g rng_ops =
  seed_engine :: "64 word \<Rightarrow> 'g"
  uniform_real :: "'g \<Rightarrow> real \<times> 'g"
  uniform_int :: "int \<Rightarrow> int \<Rightarrow> 'g \<Rightarrow> int \<times> 'g"
  discrete :: "int list \<Rightarrow> 'g \<Rightarrow> nat \<times> 'g"

record NetworkFailureConfig =
  p_fail :: real
  leader_fail_multiplier :: real
  offline_durations :: "int list"
  offline_weights :: "int list"

record 'g NetworkFailure =
  nf_uid :: int
  nf_cfg :: NetworkFailureConfig
  nf_rng :: 'g
  offline_remaining :: int
  is_leader :: bool

definition new_NetworkFailure ::
  "'g rng_ops \<Rightarrow> int \<Rightarrow> 64 word \<Rightarrow> NetworkFailureConfig \<Rightarrow> 'g NetworkFailure" where
  "new_NetworkFailure R u base_seed c =
     \<lparr>nf_uid = u, nf_cfg = c, nf_rng = seed_engine R (mix_seed base_seed (word_of_int u)),
      offline_remaining = 0, is_leader = False\<rparr>"

text \<open>
  \<open>NetworkFailure::tick\<close>. The doubles are modelled as reals. Reading
  \<open>offline_durations[idx]\<close> past the end of the vector is undefined behaviour in the
  source; the model returns \<open>None\<close> there.
\<close>

definition NetworkFailure_tick ::
  "'g rng_ops \<Rightarrow> int \<Rightarrow> 'g NetworkFailure \<Rightarrow> 'g NetworkFailure option" where
  "NetworkFailure_tick R tick f =
     (if offline_remaining f > 0 then Some (f\<lparr>offline_remaining := offline_remaining f - 1\<rparr>)
      else
        let p = (if is_leader f
                 then p_fail (nf_cfg f) * leader_fail_multiplier (nf_cfg f)
                 else p_fail (nf_cfg f));
            (u, g1) = uniform_real R (nf_rng f)
        in if u < p then
             (let (idx, g2) = discrete R (offline_weights (nf_cfg f)) g1
              in if idx < length (offline_durations (nf_cfg f))
                 then Some (f\<lparr>nf_rng := g2,
                              offline_remaining := offline_durations (nf_cfg f) ! idx\<rparr>)
                 else None)
           else Some (f\<lparr>nf_rng := g1\<rparr>))"

definition NetworkFailure_can_communicate :: "'g NetworkFailure \<Rightarrow> bool" where
  "NetworkFailure_can_communicate f = (offline_remaining f = 0)"

definition NetworkFailure_ticks_until_recovery :: "'g NetworkFailure \<Rightarrow> int" where
  "NetworkFailure_ticks_until_recovery f = offline_remaining f"

definition set_is_leader :: "bool \<Rightarrow> 'g NetworkFailure \<Rightarrow> 'g NetworkFailure" where
  "set_is_leader l f = f\<lparr>is_leader := l\<rparr>"

record 'g CrashFailure =
  cf_uid :: int
  p_crash :: real
  recovery_ticks :: int
  cf_rng :: 'g
  crashed_remaining :: int

definition new_CrashFailure ::
  "'g rng_ops \<Rightarrow> int \<Rightarrow> 64 word \<Rightarrow> real \<Rightarrow> int \<Rightarrow> 'g CrashFailure" where
  "new_CrashFailure R u base_seed p r =
     \<lparr>cf_uid = u, p_crash = p, recovery_ticks = r,
      cf_rng = seed_engine R (mix_seed base_seed (word_of_int u)), crashed_remaining = 0\<rparr>"

definition CrashFailure_tick :: "'g rng_ops \<Rightarrow> int \<Rightarrow> 'g CrashFailure \<Rightarrow> 'g CrashFailure" where
  "CrashFailure_tick R tick f =
     (if crashed_remaining f > 0 then f\<lparr>crashed_remaining := crashed_remaining f - 1\<rparr>
      else
        let (u, g1) = uniform_real R (cf_rng f)
        in if u < p_crash f then f\<lparr>cf_rng := g1, crashed_remaining := recovery_ticks f\<rparr>
           else f\<lparr>cf_rng := g1\<rparr>)"

definition CrashFailure_can_communicate :: "'g CrashFailure \<Rightarrow> bool" where
  "CrashFailure_can_communicate f = (crashed_remaining f = 0)"

text \<open>The class hierarchy under \<open>Failure\<close>, and the factory \<open>make_failure\<close>.\<close>

datatype 'g Failure =
  NoFailure
| Network "'g NetworkFailure"
| Crash "'g CrashFailure"

datatype FailureType = FT_None | FT_Network | FT_Crash

definition make_failure ::
  "'g rng_ops \<Rightarrow> FailureType \<Rightarrow> int \<Rightarrow> 64 word \<Rightarrow> NetworkFailureConfig \<Rightarrow> real \<Rightarrow> int
     \<Rightarrow> 'g Failure" where
  "make_failure R type u sd net_cfg crash_p crash_recovery =
     (case type of
        FT_Network \<Rightarrow> Network (new_NetworkFailure R u sd net_cfg)
      | FT_Crash \<Rightarrow> Crash (new_CrashFailure R u sd crash_p crash_recovery)
      | FT_None \<Rightarrow> NoFailure)"

definition Failure_tick :: "'g rng_ops \<Rightarrow> int \<Rightarrow> 'g Failure \<Rightarrow> 'g Failure option" where
  "Failure_tick R tick f =
     (case f of
        NoFailure \<Rightarrow> Some NoFailure
      | Network nf \<Rightarrow> map_option Network (NetworkFailure_tick R tick nf)
      | Crash cf \<Rightarrow> Some (Crash (CrashFailure_tick R tick cf)))"

definition Failure_can_communicate :: "'g Failure \<Rightarrow> bool" where
  "Failure_can_communicate f =
     (case f of
        NoFailure \<Rightarrow> True
      | Network nf \<Rightarrow> NetworkFailure_can_communicate nf
      | Crash cf \<Rightarrow> CrashFailure_can_communicate cf)"

section \<open>node.hpp\<close>

record NodeConfig =
  hb_period_ticks :: int
  hb_timeout_ticks :: int
  election_timeout_ticks :: int
  p_send :: real
  p_drop :: real
  max_recv_per_tick :: int
  seed :: "64 word"
  debug :: bool

text \<open>The defaults of the struct.\<close>

definition default_NodeConfig :: NodeConfig where
  "default_NodeConfig =
     \<lparr>hb_period_ticks = 1, hb_timeout_ticks = 3, election_timeout_ticks = 3,
      p_send = 0.30, p_drop = 0.0, max_recv_per_tick = 64, seed = 0, debug = True\<rparr>"

text \<open>
  The lines handed to \<open>debug_print\<close>, one constructor per call site. The source builds
  strings (with \<open>std::to_string\<close> of the peer named in them); the constructor's
  argument is that peer.
\<close>

datatype debug_line =
  DbgHbTimeout
| DbgCoordTimeout
| DbgWonElection
| DbgCoordinatorToAll
| DbgHeartbeatToAll
| DbgElectionTo int
| DbgElectionDropped int
| DbgNoHigherNodes
| DbgHeartbeatFrom int
| DbgOkTo int
| DbgOkDropped int
| DbgElectionFrom int
| DbgOkFrom int
| DbgCoordinatorAccepted int
| DbgCoordinatorRejected int
| DbgAckTo int
| DbgAckDropped int
| DbgPingTo int
| DbgPingDropped int

text \<open>
  The fields of \<open>Node\<close>, without the trailing underscore. \<open>mpi_sent\<close> is not a field
  of the class: it is the effect of the peer on the outside, the list of
  \<open>MPI_Send\<close> calls it has made, each with its destination rank, oldest first.
\<close>

record 'g node =
  rank :: int
  world_size :: int
  num_nodes :: int
  uid :: int
  leader_uid :: int
  last_hb_tick :: int
  can_communicate :: bool
  election_active :: bool
  election_started :: bool
  waiting_for_coordinator :: bool
  ok_received_tick :: int
  election_start_tick :: int
  cfg :: NodeConfig
  rng :: 'g
  msg_buffer :: MessageBuffer
  debug_messages :: "debug_line list"
  next_msg_id :: int
  pings_sent :: int
  acks_received :: int
  mpi_sent :: "(int \<times> Message) list"

datatype error = runtime_error string

text \<open>The constructor: the member initialisers, then the two checks that throw.\<close>

definition Node :: "'g rng_ops \<Rightarrow> int \<Rightarrow> int \<Rightarrow> int \<Rightarrow> NodeConfig \<Rightarrow> error + 'g node" where
  "Node R mpi_rank ws nn c =
     (if mpi_rank = 0
      then Inl (runtime_error ''Node should not be constructed for controller rank 0'')
      else if ws \<noteq> nn + 1
      then Inl (runtime_error ''world_size must equal num_nodes + 1'')
      else Inr \<lparr>rank = mpi_rank, world_size = ws, num_nodes = nn, uid = mpi_rank,
                leader_uid = nn, last_hb_tick = - 1, can_communicate = True,
                election_active = False, election_started = False,
                waiting_for_coordinator = False, ok_received_tick = - 1,
                election_start_tick = - 1, cfg = c,
                rng = seed_engine R (mix_seed (seed c) (word_of_int mpi_rank)),
                msg_buffer = new_buffer, debug_messages = [], next_msg_id = 0,
                pings_sent = 0, acks_received = 0, mpi_sent = []\<rparr>)"

definition set_can_communicate :: "bool \<Rightarrow> 'g node \<Rightarrow> 'g node" where
  "set_can_communicate can n = n\<lparr>can_communicate := can\<rparr>"

definition clear_message_buffer :: "'g node \<Rightarrow> 'g node" where
  "clear_message_buffer n = n\<lparr>msg_buffer := clear (msg_buffer n)\<rparr>"

definition clear_debug_messages :: "'g node \<Rightarrow> 'g node" where
  "clear_debug_messages n = n\<lparr>debug_messages := []\<rparr>"

text \<open>\<open>debug_print\<close> stores the line; the copy written to standard output is not modelled.\<close>

definition debug_print :: "debug_line \<Rightarrow> 'g node \<Rightarrow> 'g node" where
  "debug_print msg n = n\<lparr>debug_messages := debug_messages n @ [msg]\<rparr>"

definition should_drop_outgoing :: "'g rng_ops \<Rightarrow> 'g node \<Rightarrow> bool \<times> 'g node" where
  "should_drop_outgoing R n =
     (if p_drop (cfg n) \<le> 0 then (False, n)
      else (case uniform_real R (rng n) of
              (u, g) \<Rightarrow> (u \<le> p_drop (cfg n), n\<lparr>rng := g\<rparr>)))"

definition send_message :: "Message \<Rightarrow> int \<Rightarrow> bool \<Rightarrow> 'g node \<Rightarrow> 'g node" where
  "send_message m dst_rank dropped n =
     (let effectively_dropped = (dropped \<or> \<not> can_communicate n);
          n1 = n\<lparr>msg_buffer := log_send (m_tick m) m dst_rank effectively_dropped (msg_buffer n)\<rparr>
      in if \<not> effectively_dropped then n1\<lparr>mpi_sent := mpi_sent n1 @ [(dst_rank, m)]\<rparr> else n1)"

text \<open>
  \<open>broadcast_to_nodes\<close>: the loop over the ranks \<open>1 .. num_nodes_\<close>, calling
  \<open>send_message(m, r)\<close> with the default \<open>dropped = false\<close>.
\<close>

definition broadcast_step :: "Message \<Rightarrow> int \<Rightarrow> 'g node \<Rightarrow> 'g node" where
  "broadcast_step m r n = (if r = rank n then n else send_message m r False n)"

definition broadcast_to_nodes :: "Message \<Rightarrow> 'g node \<Rightarrow> 'g node" where
  "broadcast_to_nodes m n = fold (broadcast_step m) [1 .. num_nodes n] n"

text \<open>
  \<open>maybe_send_heartbeat\<close>. The remainder \<open>%\<close> of the source truncates towards zero:
  \<open>smod\<close>.
\<close>

definition maybe_send_heartbeat :: "int \<Rightarrow> 'g node \<Rightarrow> 'g node" where
  "maybe_send_heartbeat tick n =
     (if uid n \<noteq> leader_uid n then n
      else if hb_period_ticks (cfg n) \<le> 0 then n
      else if tick smod hb_period_ticks (cfg n) \<noteq> 0 then n
      else
        let n1 = debug_print DbgHeartbeatToAll n;
            m = \<lparr>m_type = HEARTBEAT, m_tick = tick, m_src_uid = uid n1, m_dst_uid = - 1,
                 m_leader_uid = uid n1, m_aux = 0\<rparr>
        in broadcast_to_nodes m n1)"

text \<open>\<open>start_election\<close>: the body of the loop over \<open>r\<close>, then the function.\<close>

definition start_election_step ::
  "'g rng_ops \<Rightarrow> int \<Rightarrow> Message \<Rightarrow> int \<Rightarrow> bool \<times> 'g node \<Rightarrow> bool \<times> 'g node" where
  "start_election_step R tick m r st =
     (case st of (sent_any, n) \<Rightarrow>
        if r > uid n then
          (case should_drop_outgoing R n of (dropped, n1) \<Rightarrow>
             let n2 = send_message m r dropped n1
             in if \<not> dropped then (True, debug_print (DbgElectionTo r) n2)
                else (sent_any, debug_print (DbgElectionDropped r) n2))
        else (sent_any, n))"

definition start_election :: "'g rng_ops \<Rightarrow> int \<Rightarrow> 'g node \<Rightarrow> 'g node" where
  "start_election R tick n =
     (let n1 = n\<lparr>election_started := True, election_start_tick := tick\<rparr>;
          m = \<lparr>m_type = ELECTION, m_tick = tick, m_src_uid = uid n1, m_dst_uid = - 1,
               m_leader_uid = leader_uid n1, m_aux = 0\<rparr>
      in case fold (start_election_step R tick m) [1 .. num_nodes n1] (False, n1) of
           (sent_any, n2) \<Rightarrow>
             if \<not> sent_any \<and> uid n2 = num_nodes n2 then debug_print DbgNoHigherNodes n2
             else n2)"

definition handle_message :: "'g rng_ops \<Rightarrow> Message \<Rightarrow> int \<Rightarrow> 'g node \<Rightarrow> 'g node" where
  "handle_message R m tick n =
     (if m_type m = HEARTBEAT then
        (if m_src_uid m \<ge> uid n then
           debug_print (DbgHeartbeatFrom (m_src_uid m))
             (n\<lparr>leader_uid := m_src_uid m, last_hb_tick := tick,
                election_active := False, waiting_for_coordinator := False\<rparr>)
         else n)
      else if m_type m = ELECTION then
        (let ok = \<lparr>m_type = OK, m_tick = tick, m_src_uid = uid n, m_dst_uid = m_src_uid m,
                   m_leader_uid = leader_uid n, m_aux = 0\<rparr>
         in case should_drop_outgoing R n of (dropped, n1) \<Rightarrow>
              let n2 = send_message ok (m_src_uid m) dropped n1;
                  n3 = (if \<not> dropped then debug_print (DbgOkTo (m_src_uid m)) n2
                        else debug_print (DbgOkDropped (m_src_uid m)) n2)
              in if m_src_uid m < uid n3 \<and> \<not> election_active n3 then
                   debug_print (DbgElectionFrom (m_src_uid m))
                     (n3\<lparr>election_active := True, election_started := False\<rparr>)
                 else n3)
      else if m_type m = OK then
        (if m_src_uid m > uid n then
           debug_print (DbgOkFrom (m_src_uid m))
             (n\<lparr>election_active := False, election_started := False,
                waiting_for_coordinator := True, ok_received_tick := tick\<rparr>)
         else n)
      else if m_type m = COORDINATOR then
        (if m_src_uid m \<ge> uid n then
           (debug_print (DbgCoordinatorAccepted (m_src_uid m)) n)
             \<lparr>leader_uid := m_src_uid m, last_hb_tick := tick, election_active := False,
              election_started := False, waiting_for_coordinator := False,
              ok_received_tick := - 1\<rparr>
         else
           (let n1 = debug_print (DbgCoordinatorRejected (m_src_uid m)) n
            in if \<not> election_active n1 \<and> \<not> waiting_for_coordinator n1
               then n1\<lparr>election_active := True, election_started := False\<rparr>
               else n1))
      else if m_type m = PING then
        (let ack = \<lparr>m_type = ACK, m_tick = tick, m_src_uid = uid n, m_dst_uid = m_src_uid m,
                    m_leader_uid = leader_uid n, m_aux = m_aux m\<rparr>
         in case should_drop_outgoing R n of (dropped, n1) \<Rightarrow>
              let n2 = send_message ack (m_dst_uid ack) dropped n1
              in if \<not> dropped then debug_print (DbgAckTo (m_dst_uid ack)) n2
                 else debug_print (DbgAckDropped (m_dst_uid ack)) n2)
      else n)"

text \<open>
  \<open>random_peer_rank\<close> draws until the rank differs from the peer's own. Nothing bounds
  the number of draws, so the loop is a partial function: \<open>None\<close> is the run that never
  leaves it.
\<close>

partial_function (option) random_peer_loop ::
  "'g rng_ops \<Rightarrow> int \<Rightarrow> int \<Rightarrow> int \<Rightarrow> 'g \<Rightarrow> (int \<times> 'g) option" where
  "random_peer_loop R nn rk r g =
     (if r = rk
      then random_peer_loop R nn rk (fst (uniform_int R 1 nn g)) (snd (uniform_int R 1 nn g))
      else Some (r, g))"

definition random_peer_rank :: "'g rng_ops \<Rightarrow> 'g node \<Rightarrow> (int \<times> 'g node) option" where
  "random_peer_rank R n =
     (case random_peer_loop R (num_nodes n) (rank n) (rank n) (rng n) of
        None \<Rightarrow> None
      | Some (r, g) \<Rightarrow> Some (r, n\<lparr>rng := g\<rparr>))"

definition maybe_send_random_ping :: "'g rng_ops \<Rightarrow> int \<Rightarrow> 'g node \<Rightarrow> 'g node option" where
  "maybe_send_random_ping R tick n =
     (if p_send (cfg n) \<le> 0 then Some n
      else (case uniform_real R (rng n) of (u, g) \<Rightarrow>
        let n1 = n\<lparr>rng := g\<rparr>
        in if u \<ge> p_send (cfg n1) then Some n1
           else (case random_peer_rank R n1 of
                   None \<Rightarrow> None
                 | Some (destination_node, n2) \<Rightarrow>
                     let m = \<lparr>m_type = PING, m_tick = tick, m_src_uid = uid n2,
                              m_dst_uid = destination_node, m_leader_uid = leader_uid n2,
                              m_aux = next_msg_id n2\<rparr>;
                         n3 = n2\<lparr>next_msg_id := next_msg_id n2 + 1\<rparr>
                     in case should_drop_outgoing R n3 of (dropped, n4) \<Rightarrow>
                          let n5 = send_message m destination_node dropped n4
                          in if \<not> dropped
                             then Some (debug_print (DbgPingTo destination_node)
                                          (n5\<lparr>pings_sent := pings_sent n5 + 1\<rparr>))
                             else Some (debug_print (DbgPingDropped (m_dst_uid m)) n5))))"

text \<open>
  \<open>drain_incoming\<close>. The list is the sequence of messages that \<open>MPI_Iprobe\<close> and
  \<open>MPI_Recv\<close> hand to this peer during the call, in the order they hand them over;
  the empty list is the probe that finds nothing. \<open>drain_step\<close> is the body of the
  loop once a message has been received.
\<close>

definition drain_step :: "'g rng_ops \<Rightarrow> int \<Rightarrow> Message \<Rightarrow> 'g node \<Rightarrow> 'g node" where
  "drain_step R tick m n =
     (let n1 = n\<lparr>msg_buffer := log_recv tick m (msg_buffer n)\<rparr>
      in if can_communicate n1 then handle_message R m tick n1 else n1)"

fun drain_loop :: "'g rng_ops \<Rightarrow> int \<Rightarrow> int \<Rightarrow> Message list \<Rightarrow> 'g node \<Rightarrow> 'g node" where
  "drain_loop R tick drained [] n = n"
| "drain_loop R tick drained (m # inbox) n =
     (if drained < max_recv_per_tick (cfg n)
      then drain_loop R tick (drained + 1) inbox (drain_step R tick m n)
      else n)"

definition drain_incoming :: "'g rng_ops \<Rightarrow> int \<Rightarrow> Message list \<Rightarrow> 'g node \<Rightarrow> 'g node" where
  "drain_incoming R tick inbox n = drain_loop R tick 0 inbox n"

subsection \<open>The four phases of a tick\<close>

definition tick_begin :: "int \<Rightarrow> 'g node \<Rightarrow> 'g node" where
  "tick_begin tick n = n"

definition tick_send :: "'g rng_ops \<Rightarrow> int \<Rightarrow> 'g node \<Rightarrow> 'g node option" where
  "tick_send R tick n =
     (let n1 = maybe_send_heartbeat tick n;
          n2 = (if election_active n1 \<and> \<not> election_started n1
                then start_election R tick n1 else n1)
      in maybe_send_random_ping R tick n2)"

definition tick_recv :: "'g rng_ops \<Rightarrow> int \<Rightarrow> Message list \<Rightarrow> 'g node \<Rightarrow> 'g node" where
  "tick_recv R tick inbox n = drain_incoming R tick inbox n"

text \<open>
  \<open>tick_end\<close> is three \<open>if\<close> blocks in a row; each is a function of its own here, and
  \<open>tick_end\<close> runs them in the order of the source.
\<close>

definition hb_timeout_check :: "int \<Rightarrow> 'g node \<Rightarrow> 'g node" where
  "hb_timeout_check tick n =
     (if leader_uid n \<noteq> - 1 \<and> uid n \<noteq> leader_uid n \<and> \<not> election_active n
         \<and> \<not> waiting_for_coordinator n
      then (if last_hb_tick n \<ge> 0 \<and> tick - last_hb_tick n \<ge> hb_timeout_ticks (cfg n)
            then debug_print DbgHbTimeout
                   (n\<lparr>election_active := True, election_started := False\<rparr>)
            else n)
      else n)"

definition coordinator_wait_check :: "int \<Rightarrow> 'g node \<Rightarrow> 'g node" where
  "coordinator_wait_check tick n =
     (if waiting_for_coordinator n
      then (let elapsed = tick - ok_received_tick n
            in if elapsed > election_timeout_ticks (cfg n)
               then debug_print DbgCoordTimeout
                      (n\<lparr>waiting_for_coordinator := False, ok_received_tick := - 1,
                         election_active := True, election_started := False\<rparr>)
               else n)
      else n)"

definition victory_check :: "int \<Rightarrow> 'g node \<Rightarrow> 'g node" where
  "victory_check tick n =
     (if election_active n \<and> election_started n
      then (let elapsed = tick - election_start_tick n
            in if elapsed > election_timeout_ticks (cfg n)
               then (let n1 = debug_print DbgWonElection
                                (n\<lparr>leader_uid := uid n, election_active := False,
                                   election_started := False\<rparr>);
                         coord = \<lparr>m_type = COORDINATOR, m_tick = tick, m_src_uid = uid n1,
                                  m_dst_uid = - 1, m_leader_uid = uid n1, m_aux = 0\<rparr>
                     in debug_print DbgCoordinatorToAll (broadcast_to_nodes coord n1))
               else n)
      else n)"

definition tick_end :: "int \<Rightarrow> 'g node \<Rightarrow> 'g node" where
  "tick_end tick n =
     victory_check tick (coordinator_wait_check tick (hb_timeout_check tick n))"

text \<open>
  When a block takes effect: the conditions of its \<open>if\<close> statements, outer and inner,
  all hold.
\<close>

definition hb_timeout_fires :: "int \<Rightarrow> 'g node \<Rightarrow> bool" where
  "hb_timeout_fires tick n =
     ((leader_uid n \<noteq> - 1 \<and> uid n \<noteq> leader_uid n \<and> \<not> election_active n
        \<and> \<not> waiting_for_coordinator n)
      \<and> (last_hb_tick n \<ge> 0 \<and> tick - last_hb_tick n \<ge> hb_timeout_ticks (cfg n)))"

definition coordinator_wait_fires :: "int \<Rightarrow> 'g node \<Rightarrow> bool" where
  "coordinator_wait_fires tick n =
     (waiting_for_coordinator n \<and> tick - ok_received_tick n > election_timeout_ticks (cfg n))"

definition victory_fires :: "int \<Rightarrow> 'g node \<Rightarrow> bool" where
  "victory_fires tick n =
     ((election_active n \<and> election_started n)
      \<and> tick - election_start_tick n > election_timeout_ticks (cfg n))"

section \<open>The worker loop of main\<close>

text \<open>
  One iteration of the worker's loop up to the second barrier: the failure model is
  advanced (a \<open>NetworkFailure\<close> is first told whether the peer believes itself leader),
  its verdict is injected into the peer, and the four phases run.
\<close>

definition advance_failure :: "'g rng_ops \<Rightarrow> int \<Rightarrow> 'g node \<Rightarrow> 'g Failure \<Rightarrow> 'g Failure option" where
  "advance_failure R t n f =
     Failure_tick R t
       (case f of
          Network nf \<Rightarrow> Network (set_is_leader (leader_uid n = uid n) nf)
        | _ \<Rightarrow> f)"

definition worker_tick ::
  "'g rng_ops \<Rightarrow> int \<Rightarrow> Message list \<Rightarrow> 'g node \<times> 'g Failure \<Rightarrow> ('g node \<times> 'g Failure) option" where
  "worker_tick R t inbox st =
     (case st of (n, f) \<Rightarrow>
        (case advance_failure R t n f of
           None \<Rightarrow> None
         | Some f1 \<Rightarrow>
             let n1 = set_can_communicate (Failure_can_communicate f1) n;
                 n2 = tick_begin t n1
             in (case tick_send R t n2 of
                   None \<Rightarrow> None
                 | Some n3 \<Rightarrow> Some (tick_end t (tick_recv R t inbox n3), f1))))"

text \<open>After the harvest the worker clears both buffers.\<close>

definition worker_clear :: "'g node \<Rightarrow> 'g node" where
  "worker_clear n = clear_debug_messages (clear_message_buffer n)"

text \<open>
  The loop itself, one inbound list per tick. The result is what the harvest sees at
  each tick: the peer as it stands after \<open>tick_end\<close>, before the buffers are cleared.
\<close>

fun worker_loop ::
  "'g rng_ops \<Rightarrow> int \<Rightarrow> Message list list \<Rightarrow> 'g node \<times> 'g Failure \<Rightarrow> 'g node list option" where
  "worker_loop R t [] st = Some []"
| "worker_loop R t (inbox # rest) st =
     (case worker_tick R t inbox st of
        None \<Rightarrow> None
      | Some (n, f) \<Rightarrow> map_option ((#) n) (worker_loop R (t + 1) rest (worker_clear n, f)))"

section \<open>Reachable peer states\<close>

text \<open>
  The states a peer can be in: a successfully constructed peer, and whatever the
  worker loop's calls make of it. The calls may come in any order, with any tick number
  and any inbound messages, which covers every order the worker loop produces.
\<close>

inductive reachable :: "'g rng_ops \<Rightarrow> 'g node \<Rightarrow> bool" for R :: "'g rng_ops" where
  r_init: "Node R mpi_rank ws nn c = Inr n \<Longrightarrow> reachable R n"
| r_set_can: "reachable R n \<Longrightarrow> reachable R (set_can_communicate can n)"
| r_begin: "reachable R n \<Longrightarrow> reachable R (tick_begin t n)"
| r_send: "reachable R n \<Longrightarrow> tick_send R t n = Some n' \<Longrightarrow> reachable R n'"
| r_recv: "reachable R n \<Longrightarrow> reachable R (tick_recv R t inbox n)"
| r_end: "reachable R n \<Longrightarrow> reachable R (tick_end t n)"
| r_clear: "reachable R n \<Longrightarrow> reachable R (worker_clear n)"

section \<open>Concrete inputs\<close>

text \<open>
  An engine for the concrete examples: its state is the number of draws made so far,
  and every draw returns the same value (\<open>u\<close> for a uniform real, \<open>k\<close> for a uniform
  integer, \<open>i\<close> for a categorical index).
\<close>

definition fixed_rng :: "real \<Rightarrow> int \<Rightarrow> nat \<Rightarrow> nat rng_ops" where
  "fixed_rng u k i =
     \<lparr>seed_engine = (\<lambda>s. 0), uniform_real = (\<lambda>g. (u, Suc g)),
      uniform_int = (\<lambda>lo hi g. (k, Suc g)), discrete = (\<lambda>w g. (i, Suc g))\<rparr>"

text \<open>The default configuration with the background traffic switched off.\<close>

definition demo_rng :: "nat rng_ops" where
  "demo_rng = fixed_rng (1 / 2) 1 0"

definition quiet_cfg :: NodeConfig where
  "quiet_cfg = default_NodeConfig\<lparr>p_send := 0\<rparr>"

text \<open>Peer \<open>r\<close> of \<open>nn\<close> as the constructor leaves it, under \<open>quiet_cfg\<close>.\<close>

definition fresh_peer :: "int \<Rightarrow> int \<Rightarrow> nat node" where
  "fresh_peer r nn = projr (Node demo_rng r (nn + 1) nn quiet_cfg)"

definition msg :: "int \<Rightarrow> int \<Rightarrow> int \<Rightarrow> int \<Rightarrow> Message" where
  "msg ty t src dst =
     \<lparr>m_type = ty, m_tick = t, m_src_uid = src, m_dst_uid = dst, m_leader_uid = - 1,
      m_aux = 0\<rparr>"

text \<open>Two states of peer 3 of 5 for the checks of \<open>tick_end\<close>.\<close>

definition late_follower :: "nat node" where
  "late_follower = (fresh_peer 3 5)\<lparr>last_hb_tick := 0\<rparr>"

definition waiting_candidate :: "nat node" where
  "waiting_candidate =
     (fresh_peer 3 5)\<lparr>waiting_for_coordinator := True, ok_received_tick := 5,
                      election_active := True, election_started := True,
                      election_start_tick := 7\<rparr>"

text \<open>
  The defaults of \<open>NetworkFailureConfig\<close>, and a failure model of peer 3 whose every
  trial succeeds: with the engine \<open>demo_rng\<close> it goes offline for
  \<open>offline_durations[0] = 1\<close> tick.
\<close>

definition default_NetworkFailureConfig :: NetworkFailureConfig where
  "default_NetworkFailureConfig =
     \<lparr>p_fail = 0.02, leader_fail_multiplier = 2.0, offline_durations = [1, 2, 3, 5],
      offline_weights = [70, 20, 7, 3]\<rparr>"

definition failing_link :: "nat NetworkFailure" where
  "failing_link =
     new_NetworkFailure demo_rng 3 12345 (default_NetworkFailureConfig\<lparr>p_fail := 1\<rparr>)"

section \<open>Vocabulary for the event log\<close>

text \<open>
  An event without its \<open>dropped\<close> flag: tick, type, source, destination, direction.
\<close>

definition event_key :: "MessageEvent \<Rightarrow> int \<times> int \<times> int \<times> int \<times> int" where
  "event_key e = (e_tick e, e_type e, e_src_uid e, e_dst_uid e, e_direction e)"

text \<open>
  What one drained message \<open>m\<close> is expected to leave in the log of a peer \<open>u\<close> that
  can communicate: its receive event, then the send event of the reply, if the message
  is one that is replied to (OK for an ELECTION, ACK for a PING, both addressed to the
  sender of \<open>m\<close>).
\<close>

definition drain_events :: "int \<Rightarrow> int \<Rightarrow> Message \<Rightarrow> (int \<times> int \<times> int \<times> int \<times> int) list" where
  "drain_events t u m =
     (t, m_type m, m_src_uid m, m_dst_uid m, 1) #
     (if m_type m = ELECTION then [(t, OK, u, m_src_uid m, 0)]
      else if m_type m = PING then [(t, ACK, u, m_src_uid m, 0)]
      else [])"

text \<open>The send event of message \<open>m\<close> to rank \<open>d\<close> with a given \<open>dropped\<close> flag.\<close>

definition send_event :: "Message \<Rightarrow> int \<Rightarrow> bool \<Rightarrow> MessageEvent" where
  "send_event m d flag =
     \<lparr>e_tick = m_tick m, e_type = m_type m, e_src_uid = m_src_uid m, e_dst_uid = d,
      e_dropped = (if flag then 1 else 0), e_direction = 0\<rparr>"

text \<open>The ranks a broadcast goes to: \<open>1 .. num_nodes\<close> without the peer's own.\<close>

definition other_ranks :: "'g node \<Rightarrow> int list" where
  "other_ranks n = filter (\<lambda>r. r \<noteq> rank n) [1 .. num_nodes n]"

text \<open>Peer 3 of 5 while its failure model reports it offline.\<close>

definition offline_peer :: "nat node" where
  "offline_peer = set_can_communicate False (fresh_peer 3 5)"

text \<open>
  Peer 3 of 5 with background traffic and drops switched fully on: every trial of
  \<open>p_send\<close> and of \<open>p_drop\<close> succeeds under \<open>demo_rng\<close>.
\<close>

definition chatty_peer :: "nat node" where
  "chatty_peer = (fresh_peer 3 5)\<lparr>cfg := quiet_cfg\<lparr>p_send := 1, p_drop := 1\<rparr>\<rparr>"

section \<open>Properties of the event buffer\<close>

lemma buf_ok_new_buffer: "buf_ok new_buffer"
  by (simp add: buf_ok_def new_buffer_def MAX_MSG_EVENTS_PER_TICK_def)

lemma buf_ok_clear: "buf_ok b \<Longrightarrow> buf_ok (clear b)"
  by (simp add: buf_ok_def clear_def MAX_MSG_EVENTS_PER_TICK_def)

lemma buf_ok_add_event: "buf_ok b \<Longrightarrow> buf_ok (add_event t ty s d dr rc b)"
  by (simp add: buf_ok_def add_event_def MAX_MSG_EVENTS_PER_TICK_def)

lemma recorded_add_event:
  assumes "buf_ok b"
  shows "recorded (add_event t ty s d dr rc b) =
           (if count b < MAX_MSG_EVENTS_PER_TICK
            then recorded b @ [\<lparr>e_tick = t, e_type = ty, e_src_uid = s, e_dst_uid = d,
                                e_dropped = (if dr then 1 else 0),
                                e_direction = (if rc then 1 else 0)\<rparr>]
            else recorded b)"
proof (cases "count b < MAX_MSG_EVENTS_PER_TICK")
  case True
  from assms True have k: "nat (count b) < length (events b)"
    by (simp add: buf_ok_def MAX_MSG_EVENTS_PER_TICK_def)
  from assms have "nat (count b + 1) = Suc (nat (count b))"
    by (simp add: buf_ok_def nat_add_distrib)
  with True k show ?thesis
    by (simp add: recorded_def add_event_def take_Suc_conv_app_nth)
next
  case False
  then show ?thesis by (simp add: add_event_def)
qed


lemma fold_invariant:
  assumes "\<And>x s. Q s \<Longrightarrow> Q (f x s)" and "Q s"
  shows "Q (fold f xs s)"
  using assms(2) by (induction xs arbitrary: s) (simp_all add: assms(1))

subsection \<open>What the peer's operations do to the event buffer\<close>

text \<open>
  Every operation of the peer touches the buffer only through \<open>log_send\<close> and
  \<open>log_recv\<close>, so a property of buffers that both of them keep is kept by the
  operation.
\<close>

lemma msg_buffer_debug_print [simp]: "msg_buffer (debug_print l n) = msg_buffer n"
  by (simp add: debug_print_def)

lemma msg_buffer_should_drop [simp]:
  "msg_buffer (snd (should_drop_outgoing R n)) = msg_buffer n"
  by (simp add: should_drop_outgoing_def split: prod.splits)

lemma send_message_buffer:
  assumes S: "\<And>t m d dr b. P b \<Longrightarrow> P (log_send t m d dr b)"
    and "P (msg_buffer n)"
  shows "P (msg_buffer (send_message m d dr n))"
  using assms(2) by (simp add: send_message_def Let_def S)

lemma broadcast_to_nodes_buffer:
  assumes S: "\<And>t m d dr b. P b \<Longrightarrow> P (log_send t m d dr b)"
    and "P (msg_buffer n)"
  shows "P (msg_buffer (broadcast_to_nodes m n))"
  unfolding broadcast_to_nodes_def
proof (rule fold_invariant [where Q = "\<lambda>s. P (msg_buffer s)"])
  fix x and s :: "'a node" assume "P (msg_buffer s)"
  then show "P (msg_buffer (broadcast_step m x s))"
    by (simp add: broadcast_step_def send_message_buffer [where P = P, OF S])
qed (rule assms(2))

lemma maybe_send_heartbeat_buffer:
  assumes S: "\<And>t m d dr b. P b \<Longrightarrow> P (log_send t m d dr b)"
    and "P (msg_buffer n)"
  shows "P (msg_buffer (maybe_send_heartbeat t n))"
  using assms(2)
  by (simp add: maybe_send_heartbeat_def Let_def broadcast_to_nodes_buffer [where P = P, OF S])

lemma start_election_step_buffer:
  assumes S: "\<And>t m d dr b. P b \<Longrightarrow> P (log_send t m d dr b)"
    and "P (msg_buffer (snd st))"
  shows "P (msg_buffer (snd (start_election_step R t m r st)))"
proof -
  obtain sa n where st: "st = (sa, n)" by (cases st)
  obtain dr n1 where d: "should_drop_outgoing R n = (dr, n1)" by (cases "should_drop_outgoing R n")
  then have "msg_buffer n1 = msg_buffer n"
    using msg_buffer_should_drop [of R n] by simp
  with assms(2) st have "\<And>dr'. P (msg_buffer (send_message m r dr' n1))"
    by (simp add: send_message_buffer [where P = P, OF S])
  with assms(2) st d show ?thesis
    by (simp add: start_election_step_def Let_def)
qed

lemma start_election_buffer:
  assumes S: "\<And>t m d dr b. P b \<Longrightarrow> P (log_send t m d dr b)"
    and "P (msg_buffer n)"
  shows "P (msg_buffer (start_election R t n))"
proof -
  let ?n1 = "n\<lparr>election_started := True, election_start_tick := t\<rparr>"
  let ?m = "\<lparr>m_type = ELECTION, m_tick = t, m_src_uid = uid ?n1, m_dst_uid = - 1,
               m_leader_uid = leader_uid ?n1, m_aux = 0\<rparr>"
  obtain sa n2 where f:
    "fold (start_election_step R t ?m) [1 .. num_nodes ?n1] (False, ?n1) = (sa, n2)"
    by (cases "fold (start_election_step R t ?m) [1 .. num_nodes ?n1] (False, ?n1)")
  have "P (msg_buffer (snd (fold (start_election_step R t ?m) [1 .. num_nodes ?n1] (False, ?n1))))"
    by (rule fold_invariant [where Q = "\<lambda>st. P (msg_buffer (snd st))"])
       (simp_all add: start_election_step_buffer [where P = P, OF S] assms(2))
  with f have "P (msg_buffer n2)" by simp
  with f show ?thesis
    by (simp add: start_election_def Let_def)
qed

lemma handle_message_buffer:
  assumes S: "\<And>t m d dr b. P b \<Longrightarrow> P (log_send t m d dr b)"
    and "P (msg_buffer n)"
  shows "P (msg_buffer (handle_message R m t n))"
proof -
  obtain dr n1 where d: "should_drop_outgoing R n = (dr, n1)" by (cases "should_drop_outgoing R n")
  then have "msg_buffer n1 = msg_buffer n"
    using msg_buffer_should_drop [of R n] by simp
  with assms(2) have "\<And>m' d' dr'. P (msg_buffer (send_message m' d' dr' n1))"
    by (simp add: send_message_buffer [where P = P, OF S])
  with assms(2) d show ?thesis
    by (simp add: handle_message_def Let_def)
qed

lemma drain_step_buffer:
  assumes S: "\<And>t m d dr b. P b \<Longrightarrow> P (log_send t m d dr b)"
    and Rc: "\<And>t m b. P b \<Longrightarrow> P (log_recv t m b)"
    and "P (msg_buffer n)"
  shows "P (msg_buffer (drain_step R t m n))"
  using assms(3)
  by (simp add: drain_step_def Let_def Rc handle_message_buffer [where P = P, OF S])

lemma drain_loop_buffer:
  assumes S: "\<And>t m d dr b. P b \<Longrightarrow> P (log_send t m d dr b)"
    and Rc: "\<And>t m b. P b \<Longrightarrow> P (log_recv t m b)"
    and "P (msg_buffer n)"
  shows "P (msg_buffer (drain_loop R t k inbox n))"
  using assms(3)
  by (induction inbox arbitrary: k n)
     (simp_all add: drain_step_buffer [where P = P, OF S Rc])

lemma maybe_send_random_ping_buffer:
  assumes S: "\<And>t m d dr b. P b \<Longrightarrow> P (log_send t m d dr b)"
    and "P (msg_buffer n)" and "maybe_send_random_ping R t n = Some n'"
  shows "P (msg_buffer n')"
proof (cases "p_send (cfg n) \<le> 0")
  case True
  with assms show ?thesis by (simp add: maybe_send_random_ping_def)
next
  case False
  obtain u g where u: "uniform_real R (rng n) = (u, g)" by (cases "uniform_real R (rng n)")
  show ?thesis
  proof (cases "u \<ge> p_send (cfg n)")
    case True
    with assms False u show ?thesis by (auto simp: maybe_send_random_ping_def)
  next
    case nb: False
    from assms(3) False u nb obtain dest n2 where
      r: "random_peer_rank R (n\<lparr>rng := g\<rparr>) = Some (dest, n2)"
      by (auto simp: maybe_send_random_ping_def Let_def split: option.splits)
    then have b2: "msg_buffer n2 = msg_buffer n"
      by (auto simp: random_peer_rank_def split: option.splits)
    let ?n3 = "n2\<lparr>next_msg_id := next_msg_id n2 + 1\<rparr>"
    obtain dr n4 where d: "should_drop_outgoing R ?n3 = (dr, n4)"
      by (cases "should_drop_outgoing R ?n3")
    then have "msg_buffer n4 = msg_buffer n"
      using msg_buffer_should_drop [of R ?n3] b2 by simp
    with assms(2) have "\<And>m' d' dr'. P (msg_buffer (send_message m' d' dr' n4))"
      by (simp add: send_message_buffer [where P = P, OF S])
    with assms(3) False u nb r d show ?thesis
      by (auto simp: maybe_send_random_ping_def Let_def split: if_splits)
  qed
qed

lemma tick_send_buffer:
  assumes S: "\<And>t m d dr b. P b \<Longrightarrow> P (log_send t m d dr b)"
    and "P (msg_buffer n)" and "tick_send R t n = Some n'"
  shows "P (msg_buffer n')"
proof -
  let ?n1 = "maybe_send_heartbeat t n"
  let ?n2 = "if election_active ?n1 \<and> \<not> election_started ?n1
             then start_election R t ?n1 else ?n1"
  have "P (msg_buffer ?n1)"
    by (rule maybe_send_heartbeat_buffer [where P = P, OF S assms(2)])
  then have a: "P (msg_buffer ?n2)"
    by (simp add: start_election_buffer [where P = P, OF S])
  from assms(3) have b: "maybe_send_random_ping R t ?n2 = Some n'"
    by (simp add: tick_send_def Let_def)
  show ?thesis
    by (rule maybe_send_random_ping_buffer [where P = P and n = ?n2, OF S a b])
qed

lemma tick_end_buffer:
  assumes S: "\<And>t m d dr b. P b \<Longrightarrow> P (log_send t m d dr b)"
    and "P (msg_buffer n)"
  shows "P (msg_buffer (tick_end t n))"
  using assms(2)
  by (simp add: tick_end_def victory_check_def coordinator_wait_check_def hb_timeout_check_def
      Let_def broadcast_to_nodes_buffer [where P = P, OF S])

lemma reachable_buffer:
  assumes I: "P new_buffer"
    and C: "\<And>b. P b \<Longrightarrow> P (clear b)"
    and S: "\<And>t m d dr b. P b \<Longrightarrow> P (log_send t m d dr b)"
    and Rc: "\<And>t m b. P b \<Longrightarrow> P (log_recv t m b)"
    and "reachable R n"
  shows "P (msg_buffer n)"
  using assms(5)
proof (induction rule: reachable.induct)
  case (r_init mpi_rank ws nn c n)
  then show ?case by (auto simp: Node_def I split: if_splits)
next
  case (r_set_can n can)
  then show ?case by (simp add: set_can_communicate_def)
next
  case (r_begin n t)
  then show ?case by (simp add: tick_begin_def)
next
  case (r_send n t n')
  then show ?case using tick_send_buffer [where P = P, OF S] by blast
next
  case (r_recv n t inbox)
  then show ?case
    by (simp add: tick_recv_def drain_incoming_def drain_loop_buffer [where P = P, OF S Rc])
next
  case (r_end n t)
  then show ?case by (simp add: tick_end_buffer [where P = P, OF S])
next
  case (r_clear n)
  then show ?case
    by (simp add: worker_clear_def clear_message_buffer_def clear_debug_messages_def C)
qed


text \<open>The buffer of a reachable peer is well-formed.\<close>

lemma reachable_buf_ok: "reachable R n \<Longrightarrow> buf_ok (msg_buffer n)"
  using buf_ok_new_buffer buf_ok_clear
  by (rule reachable_buffer) (simp_all add: log_send_def log_recv_def buf_ok_add_event)

subsection \<open>Evaluating the model on concrete inputs\<close>

lemma upto_from_1: "[1 .. j] = (if 1 \<le> j then 1 # [2 .. j] else [])"
  by (simp add: upto.simps)

lemmas eval_defs =
  demo_rng_def fresh_peer_def Node_def quiet_cfg_def default_NodeConfig_def fixed_rng_def msg_def
  tick_begin_def tick_send_def tick_recv_def tick_end_def
  hb_timeout_check_def coordinator_wait_check_def victory_check_def
  maybe_send_heartbeat_def broadcast_to_nodes_def broadcast_step_def send_message_def
  start_election_def start_election_step_def should_drop_outgoing_def
  handle_message_def drain_incoming_def drain_step_def maybe_send_random_ping_def
  set_can_communicate_def clear_message_buffer_def clear_debug_messages_def worker_clear_def
  worker_tick_def advance_failure_def Failure_tick_def Failure_can_communicate_def
  debug_print_def log_send_def log_recv_def MsgType_defs Let_def signed_modulo_int_def
  upto_from_1

text \<open>The same for the event buffer, without opening the array.\<close>

lemma count_new_buffer: "count new_buffer = 0"
  by (simp add: new_buffer_def)

lemma count_clear: "count (clear b) = 0"
  by (simp add: clear_def)

lemma count_add_event:
  "count (add_event t ty s d dr rc b) =
     (if count b \<ge> MAX_MSG_EVENTS_PER_TICK then count b else count b + 1)"
  by (simp add: add_event_def)

lemma recorded_new_buffer: "recorded new_buffer = []"
  by (simp add: recorded_def new_buffer_def)

lemma recorded_clear: "recorded (clear b) = []"
  by (simp add: recorded_def clear_def)

lemma length_events_new_buffer: "length (events new_buffer) = 32"
  by (simp add: new_buffer_def)

lemma length_events_clear: "length (events (clear b)) = length (events b)"
  by (simp add: clear_def)

lemma length_events_add_event:
  "length (events (add_event t ty s d dr rc b)) = length (events b)"
  by (simp add: add_event_def)

lemmas buffer_eval =
  buf_ok_def count_new_buffer count_clear count_add_event
  length_events_new_buffer length_events_clear length_events_add_event
  recorded_new_buffer recorded_clear recorded_add_event MAX_MSG_EVENTS_PER_TICK_def

lemma fresh_peer_reachable: "0 < r \<Longrightarrow> reachable demo_rng (fresh_peer r nn)"
  by (rule r_init [of demo_rng r "nn + 1" nn quiet_cfg]) (simp add: fresh_peer_def Node_def)

lemma length_recorded: "buf_ok b \<Longrightarrow> length (recorded b) = nat (count b)"
  by (auto simp: recorded_def buf_ok_def MAX_MSG_EVENTS_PER_TICK_def)

lemma length_recorded_le: "buf_ok b \<Longrightarrow> length (recorded b) \<le> 32"
  by (auto simp: recorded_def buf_ok_def MAX_MSG_EVENTS_PER_TICK_def)

lemma recorded_add_event_take:
  assumes "buf_ok b"
  shows "recorded (add_event t ty s d dr rc b) =
           take 32 (recorded b @ [\<lparr>e_tick = t, e_type = ty, e_src_uid = s, e_dst_uid = d,
                                e_dropped = (if dr then 1 else 0),
                                e_direction = (if rc then 1 else 0)\<rparr>])"
  using assms length_recorded [OF assms]
  by (auto simp: recorded_add_event buf_ok_def MAX_MSG_EVENTS_PER_TICK_def)

lemma take_take_append: "take k (take k xs @ ys) = take k (xs @ ys)"
  by (cases "k \<le> length xs") (simp_all add: min_def)

subsection \<open>Draining the inbox\<close>

lemma should_drop_outgoing_eq:
  "should_drop_outgoing R n =
     (p_drop (cfg n) > 0 \<and> fst (uniform_real R (rng n)) \<le> p_drop (cfg n),
      n\<lparr>rng := (if p_drop (cfg n) \<le> 0 then rng n else snd (uniform_real R (rng n)))\<rparr>)"
  by (simp add: should_drop_outgoing_def split: prod.splits)

lemma send_message_fields [simp]:
  "uid (send_message m d dr n) = uid n"
  "rank (send_message m d dr n) = rank n"
  "num_nodes (send_message m d dr n) = num_nodes n"
  "cfg (send_message m d dr n) = cfg n"
  "can_communicate (send_message m d dr n) = can_communicate n"
  "leader_uid (send_message m d dr n) = leader_uid n"
  by (simp_all add: send_message_def Let_def)

lemma handle_message_fields:
  "uid (handle_message R m t n) = uid n"
  "cfg (handle_message R m t n) = cfg n"
  "can_communicate (handle_message R m t n) = can_communicate n"
proof -
  obtain dr g where d: "should_drop_outgoing R n = (dr, n\<lparr>rng := g\<rparr>)"
    using should_drop_outgoing_eq [of R n] by blast
  show "uid (handle_message R m t n) = uid n"
    "cfg (handle_message R m t n) = cfg n"
    "can_communicate (handle_message R m t n) = can_communicate n"
    by (simp_all add: handle_message_def d Let_def debug_print_def)
qed

lemma add_event_keys:
  assumes "buf_ok b"
  shows "map event_key (recorded (add_event t ty s d dr rc b)) =
           take 32 (map event_key (recorded b) @ [(t, ty, s, d, if rc then 1 else 0)])"
proof -
  have "map event_key (recorded (add_event t ty s d dr rc b)) =
      take 32 (map event_key (recorded b @ [\<lparr>e_tick = t, e_type = ty, e_src_uid = s,
          e_dst_uid = d, e_dropped = (if dr then 1 else 0),
          e_direction = (if rc then 1 else 0)\<rparr>]))"
    by (simp only: recorded_add_event_take [OF assms] take_map)
  then show ?thesis by (simp add: event_key_def)
qed

lemma msg_buffer_handle_message:
  "msg_buffer (handle_message R m t n) =
     (if m_type m = ELECTION
      then log_send t \<lparr>m_type = OK, m_tick = t, m_src_uid = uid n, m_dst_uid = m_src_uid m,
                        m_leader_uid = leader_uid n, m_aux = 0\<rparr> (m_src_uid m)
             (fst (should_drop_outgoing R n) \<or> \<not> can_communicate n) (msg_buffer n)
      else if m_type m = PING
      then log_send t \<lparr>m_type = ACK, m_tick = t, m_src_uid = uid n, m_dst_uid = m_src_uid m,
                        m_leader_uid = leader_uid n, m_aux = m_aux m\<rparr> (m_src_uid m)
             (fst (should_drop_outgoing R n) \<or> \<not> can_communicate n) (msg_buffer n)
      else msg_buffer n)"
proof -
  obtain dr g where d: "should_drop_outgoing R n = (dr, n\<lparr>rng := g\<rparr>)"
    using should_drop_outgoing_eq [of R n] by blast
  show ?thesis
    by (simp add: handle_message_def d Let_def debug_print_def send_message_def MsgType_defs)
qed

lemma handle_message_keys:
  assumes "buf_ok (msg_buffer n)"
  shows "map event_key (recorded (msg_buffer (handle_message R m t n))) =
           take 32 (map event_key (recorded (msg_buffer n)) @ tl (drain_events t (uid n) m))"
proof -
  have l: "length (recorded (msg_buffer n)) \<le> 32"
    using assms by (rule length_recorded_le)
  consider "m_type m = ELECTION" | "m_type m \<noteq> ELECTION" "m_type m = PING"
    | "m_type m \<noteq> ELECTION" "m_type m \<noteq> PING"
    by blast
  then show ?thesis
  proof cases
    case 1
    then show ?thesis
      by (simp add: msg_buffer_handle_message log_send_def add_event_keys [OF assms]
          drain_events_def)
  next
    case 2
    then show ?thesis
      by (simp add: msg_buffer_handle_message log_send_def add_event_keys [OF assms]
          drain_events_def)
  next
    case 3
    then show ?thesis
      using l by (simp add: msg_buffer_handle_message drain_events_def)
  qed
qed

lemma drain_step_fields:
  "uid (drain_step R t m n) = uid n"
  "cfg (drain_step R t m n) = cfg n"
  "can_communicate (drain_step R t m n) = can_communicate n"
  by (simp_all add: drain_step_def Let_def handle_message_fields)

lemma drain_step_keys:
  assumes "buf_ok (msg_buffer n)" and "can_communicate n"
  shows "map event_key (recorded (msg_buffer (drain_step R t m n))) =
           take 32 (map event_key (recorded (msg_buffer n)) @ drain_events t (uid n) m)"
proof -
  let ?n1 = "n\<lparr>msg_buffer := log_recv t m (msg_buffer n)\<rparr>"
  have b1: "buf_ok (msg_buffer ?n1)"
    using assms(1) by (simp add: log_recv_def buf_ok_add_event)
  have k1: "map event_key (recorded (log_recv t m (msg_buffer n))) =
      take 32 (map event_key (recorded (msg_buffer n)) @ [(t, m_type m, m_src_uid m, m_dst_uid m, 1)])"
    using assms(1) by (simp add: log_recv_def add_event_keys)
  have "map event_key (recorded (msg_buffer (drain_step R t m n))) =
      take 32 (map event_key (recorded (msg_buffer ?n1)) @ tl (drain_events t (uid n) m))"
    using assms(2) handle_message_keys [OF b1, of R m t]
    by (simp add: drain_step_def Let_def del: take_append)
  also have "\<dots> = take 32 (map event_key (recorded (msg_buffer n))
                 @ (t, m_type m, m_src_uid m, m_dst_uid m, 1) # tl (drain_events t (uid n) m))"
    by (simp add: k1 take_take_append del: take_append)
  finally show ?thesis by (simp add: drain_events_def del: take_append)
qed

lemma drain_step_buf_ok:
  "buf_ok (msg_buffer n) \<Longrightarrow> buf_ok (msg_buffer (drain_step R t m n))"
  by (rule drain_step_buffer) (simp_all add: log_send_def log_recv_def buf_ok_add_event)

lemma take_nat_Cons:
  "k < mx \<Longrightarrow> take (nat (mx - k)) (m # xs) = m # take (nat (mx - (k + 1))) xs"
  for k mx :: int
proof -
  assume "k < mx"
  then have "nat (mx - k) = Suc (nat (mx - (k + 1)))" by linarith
  then show ?thesis by simp
qed

lemma drain_loop_keys:
  assumes "buf_ok (msg_buffer n)" and "can_communicate n"
  shows "map event_key (recorded (msg_buffer (drain_loop R t k inbox n))) =
           take 32 (map event_key (recorded (msg_buffer n))
                    @ concat (map (drain_events t (uid n))
                                (take (nat (max_recv_per_tick (cfg n) - k)) inbox)))"
  using assms
proof (induction inbox arbitrary: k n)
  case Nil
  then show ?case using length_recorded_le [of "msg_buffer n"] by simp
next
  case (Cons m inbox)
  show ?case
  proof (cases "k < max_recv_per_tick (cfg n)")
    case True
    let ?rest = "concat (map (drain_events t (uid n))
                           (take (nat (max_recv_per_tick (cfg n) - (k + 1))) inbox))"
    have "map event_key (recorded (msg_buffer (drain_loop R t (k + 1) inbox (drain_step R t m n)))) =
        take 32 (map event_key (recorded (msg_buffer (drain_step R t m n))) @ ?rest)"
      using Cons.IH [of "drain_step R t m n" "k + 1"] Cons.prems
      by (simp add: drain_step_buf_ok drain_step_fields del: take_append)
    also have "\<dots> = take 32 (map event_key (recorded (msg_buffer n))
                          @ drain_events t (uid n) m @ ?rest)"
      using Cons.prems
      by (simp add: drain_step_keys take_take_append del: take_append)
    finally show ?thesis
      using True by (simp add: take_nat_Cons del: take_append)
  next
    case False
    then show ?thesis using Cons.prems length_recorded_le [of "msg_buffer n"] by simp
  qed
qed

lemma drain_loop_offline:
  assumes "\<not> can_communicate n"
  shows "drain_loop R t k inbox n =
           n\<lparr>msg_buffer := fold (log_recv t) (take (nat (max_recv_per_tick (cfg n) - k)) inbox)
                               (msg_buffer n)\<rparr>"
  using assms
proof (induction inbox arbitrary: k n)
  case Nil
  then show ?case by simp
next
  case (Cons m inbox)
  show ?case
  proof (cases "k < max_recv_per_tick (cfg n)")
    case True
    then show ?thesis
      using Cons.prems Cons.IH [of "n\<lparr>msg_buffer := log_recv t m (msg_buffer n)\<rparr>" "k + 1"]
      by (simp add: drain_step_def take_nat_Cons)
  next
    case False
    then show ?thesis by simp
  qed
qed

lemma buf_ok_log_recv: "buf_ok b \<Longrightarrow> buf_ok (log_recv t m b)"
  by (simp add: log_recv_def buf_ok_add_event)

lemma log_recv_keys:
  "buf_ok b \<Longrightarrow>
   map event_key (recorded (log_recv t m b)) =
     take 32 (map event_key (recorded b) @ [(t, m_type m, m_src_uid m, m_dst_uid m, 1)])"
  by (simp add: log_recv_def add_event_keys)

lemma fold_log_recv_keys:
  assumes "buf_ok b"
  shows "map event_key (recorded (fold (log_recv t) ms b)) =
           take 32 (map event_key (recorded b)
                    @ map (\<lambda>m. (t, m_type m, m_src_uid m, m_dst_uid m, 1)) ms)"
  using assms
proof (induction ms arbitrary: b)
  case Nil
  then show ?case using length_recorded_le [of b] by simp
next
  case (Cons m ms)
  have "map event_key (recorded (fold (log_recv t) ms (log_recv t m b))) =
      take 32 (map event_key (recorded (log_recv t m b))
               @ map (\<lambda>m. (t, m_type m, m_src_uid m, m_dst_uid m, 1)) ms)"
    using Cons.IH [of "log_recv t m b"] Cons.prems
    by (simp add: buf_ok_log_recv del: take_append)
  then show ?case
    using Cons.prems
    by (simp add: log_recv_keys take_take_append del: take_append)
qed

subsection \<open>Sending\<close>

lemma buf_ok_log_send: "buf_ok b \<Longrightarrow> buf_ok (log_send t m d dr b)"
  by (simp add: log_send_def buf_ok_add_event)

lemma recorded_send_message:
  assumes "buf_ok (msg_buffer n)"
  shows "recorded (msg_buffer (send_message m d dr n)) =
           take 32 (recorded (msg_buffer n) @ [send_event m d (dr \<or> \<not> can_communicate n)])"
  using assms
  by (simp add: send_message_def Let_def log_send_def recorded_add_event_take send_event_def
      del: take_append)

lemma mpi_sent_send_message:
  "mpi_sent (send_message m d dr n) =
     (if dr \<or> \<not> can_communicate n then mpi_sent n else mpi_sent n @ [(d, m)])"
  by (simp add: send_message_def Let_def)

lemma buf_ok_send_message:
  "buf_ok (msg_buffer n) \<Longrightarrow> buf_ok (msg_buffer (send_message m d dr n))"
  by (simp add: send_message_def Let_def buf_ok_log_send)

lemma broadcast_fold_filter:
  "fold (broadcast_step m) rs n =
     fold (\<lambda>r. send_message m r False) (filter (\<lambda>r. r \<noteq> rank n) rs) n"
  by (induction rs arbitrary: n) (simp_all add: broadcast_step_def)

lemma fold_send_exact:
  assumes "buf_ok (msg_buffer n)"
  shows "buf_ok (msg_buffer (fold (\<lambda>r. send_message m r False) rs n)) \<and>
         recorded (msg_buffer (fold (\<lambda>r. send_message m r False) rs n)) =
           take 32 (recorded (msg_buffer n)
                    @ map (\<lambda>r. send_event m r (\<not> can_communicate n)) rs) \<and>
         mpi_sent (fold (\<lambda>r. send_message m r False) rs n) =
           mpi_sent n @ (if can_communicate n then map (\<lambda>r. (r, m)) rs else [])"
  using assms
proof (induction rs arbitrary: n)
  case Nil
  then show ?case using length_recorded_le [of "msg_buffer n"] by simp
next
  case (Cons r rs)
  let ?n1 = "send_message m r False n"
  have b1: "buf_ok (msg_buffer ?n1)"
    using Cons.prems by (rule buf_ok_send_message)
  note ih = Cons.IH [OF b1]
  have "recorded (msg_buffer (fold (\<lambda>r. send_message m r False) rs ?n1)) =
      take 32 (take 32 (recorded (msg_buffer n) @ [send_event m r (\<not> can_communicate n)])
               @ map (\<lambda>r. send_event m r (\<not> can_communicate n)) rs)"
    using ih Cons.prems by (simp add: recorded_send_message del: take_append)
  then have "recorded (msg_buffer (fold (\<lambda>r. send_message m r False) rs ?n1)) =
      take 32 (recorded (msg_buffer n)
               @ map (\<lambda>r. send_event m r (\<not> can_communicate n)) (r # rs))"
    by (simp add: take_take_append del: take_append)
  moreover have "mpi_sent (fold (\<lambda>r. send_message m r False) rs ?n1) =
      mpi_sent n @ (if can_communicate n then map (\<lambda>r. (r, m)) (r # rs) else [])"
    using ih by (simp add: mpi_sent_send_message)
  ultimately show ?case using ih by simp
qed

lemma fold_send_mpi:
  "mpi_sent (fold (\<lambda>r. send_message m r False) rs n) =
     mpi_sent n @ (if can_communicate n then map (\<lambda>r. (r, m)) rs else [])"
  by (induction rs arbitrary: n) (simp_all add: mpi_sent_send_message)

lemma mpi_sent_broadcast_to_nodes:
  "mpi_sent (broadcast_to_nodes m n) =
     mpi_sent n @ (if can_communicate n then map (\<lambda>r. (r, m)) (other_ranks n) else [])"
  by (simp add: broadcast_to_nodes_def broadcast_fold_filter fold_send_mpi other_ranks_def)

lemma recorded_broadcast_to_nodes:
  "buf_ok (msg_buffer n) \<Longrightarrow>
   recorded (msg_buffer (broadcast_to_nodes m n)) =
     take 32 (recorded (msg_buffer n)
              @ map (\<lambda>r. send_event m r (\<not> can_communicate n)) (other_ranks n))"
  using fold_send_exact [of n m "other_ranks n"]
  by (simp add: broadcast_to_nodes_def broadcast_fold_filter other_ranks_def del: take_append)

lemma mpi_sent_start_election_step:
  "uid n < r \<Longrightarrow>
   mpi_sent (snd (start_election_step R t m r (sent_any, n))) =
     (if fst (should_drop_outgoing R n) \<or> \<not> can_communicate n then mpi_sent n
      else mpi_sent n @ [(r, m)])"
  by (simp add: start_election_step_def should_drop_outgoing_eq send_message_def Let_def
      debug_print_def)

lemma mpi_sent_handle_message:
  "mpi_sent (handle_message R m t n) =
     (if (m_type m = ELECTION \<or> m_type m = PING)
         \<and> \<not> (fst (should_drop_outgoing R n) \<or> \<not> can_communicate n)
      then mpi_sent n @
             [(m_src_uid m,
               \<lparr>m_type = (if m_type m = ELECTION then OK else ACK), m_tick = t,
                m_src_uid = uid n, m_dst_uid = m_src_uid m, m_leader_uid = leader_uid n,
                m_aux = (if m_type m = ELECTION then 0 else m_aux m)\<rparr>)]
      else mpi_sent n)"
proof -
  obtain dr g where d: "should_drop_outgoing R n = (dr, n\<lparr>rng := g\<rparr>)"
    using should_drop_outgoing_eq [of R n] by blast
  show ?thesis
    by (simp add: handle_message_def d Let_def debug_print_def send_message_def MsgType_defs)
qed

lemma ping_exact:
  assumes "0 < p_send (cfg n)"
    and "fst (uniform_real R (rng n)) < p_send (cfg n)"
    and "random_peer_loop R (num_nodes n) (rank n) (rank n) (snd (uniform_real R (rng n)))
           = Some (dest, g2)"
  shows "map_option (\<lambda>n'. (msg_buffer n', mpi_sent n')) (maybe_send_random_ping R t n) =
     Some (log_send t \<lparr>m_type = PING, m_tick = t, m_src_uid = uid n, m_dst_uid = dest,
                        m_leader_uid = leader_uid n, m_aux = next_msg_id n\<rparr> dest
             ((0 < p_drop (cfg n) \<and> fst (uniform_real R g2) \<le> p_drop (cfg n))
                \<or> \<not> can_communicate n) (msg_buffer n),
           if (0 < p_drop (cfg n) \<and> fst (uniform_real R g2) \<le> p_drop (cfg n))
                \<or> \<not> can_communicate n
           then mpi_sent n
           else mpi_sent n @
                  [(dest, \<lparr>m_type = PING, m_tick = t, m_src_uid = uid n, m_dst_uid = dest,
                           m_leader_uid = leader_uid n, m_aux = next_msg_id n\<rparr>)])"
proof -
  obtain u g where u: "uniform_real R (rng n) = (u, g)" by (cases "uniform_real R (rng n)")
  with assms have r: "random_peer_rank R (n\<lparr>rng := g\<rparr>) = Some (dest, n\<lparr>rng := g2\<rparr>)"
    by (simp add: random_peer_rank_def)
  from assms(1,2) u r show ?thesis
    by (simp add: maybe_send_random_ping_def Let_def should_drop_outgoing_eq
        send_message_def debug_print_def)
qed

lemma ping_silent:
  "p_send (cfg n) \<le> 0 \<or> p_send (cfg n) \<le> fst (uniform_real R (rng n)) \<Longrightarrow>
   map_option (\<lambda>n'. (msg_buffer n', mpi_sent n')) (maybe_send_random_ping R t n) =
     Some (msg_buffer n, mpi_sent n)"
  by (auto simp: maybe_send_random_ping_def Let_def split: prod.splits)

lemma other_ranks_fields [simp]:
  "other_ranks (debug_print l n) = other_ranks n"
  "other_ranks (n\<lparr>leader_uid := a, election_active := b, election_started := c\<rparr>) = other_ranks n"
  by (simp_all add: other_ranks_def debug_print_def)

lemma debug_print_fields [simp]:
  "mpi_sent (debug_print l n) = mpi_sent n"
  "can_communicate (debug_print l n) = can_communicate n"
  "uid (debug_print l n) = uid n"
  by (simp_all add: debug_print_def)

lemma debug_messages_broadcast_to_nodes:
  "debug_messages (broadcast_to_nodes m n) = debug_messages n"
  unfolding broadcast_to_nodes_def
  by (rule fold_invariant [where Q = "\<lambda>s. debug_messages s = debug_messages n"])
     (simp_all add: broadcast_step_def send_message_def Let_def)

section \<open>The claims\<close>

text \<open>
  C10. Constructing a \<open>Node\<close> throws exactly when the MPI rank is 0 or when
  \<open>world_size\<close> differs from \<open>num_nodes + 1\<close>; a peer that was constructed starts
  with \<open>leader_uid = num_nodes\<close> and \<open>last_hb_tick = -1\<close>.
\<close>

theorem Node_throws_iff:
  "((\<exists>e. Node R mpi_rank ws nn c = Inl e) \<longleftrightarrow> (mpi_rank = 0 \<or> ws \<noteq> nn + 1)) \<and>
   (\<forall>n. Node R mpi_rank ws nn c = Inr n \<longrightarrow> leader_uid n = nn \<and> last_hb_tick n = - 1)"
  by (auto simp: Node_def)

theorem Node_throws_iff_witness:
  "Node demo_rng 3 6 5 quiet_cfg = Inr (fresh_peer 3 5) \<and>
   leader_uid (fresh_peer 3 5) = 5 \<and> last_hb_tick (fresh_peer 3 5) = - 1 \<and>
   (\<exists>e. Node demo_rng 0 6 5 quiet_cfg = Inl e) \<and>
   (\<exists>e. Node demo_rng 3 7 5 quiet_cfg = Inl e)"
proof -
  have c: "Node demo_rng 3 6 5 quiet_cfg = Inr (fresh_peer 3 5)"
    by (simp add: fresh_peer_def Node_def)
  from Node_throws_iff [of demo_rng 3 6 5 quiet_cfg] c
  have "leader_uid (fresh_peer 3 5) = 5 \<and> last_hb_tick (fresh_peer 3 5) = - 1"
    by blast
  moreover from Node_throws_iff [of demo_rng 0 6 5 quiet_cfg]
  have "\<exists>e. Node demo_rng 0 6 5 quiet_cfg = Inl e" by simp
  moreover from Node_throws_iff [of demo_rng 3 7 5 quiet_cfg]
  have "\<exists>e. Node demo_rng 3 7 5 quiet_cfg = Inl e" by simp
  ultimately show ?thesis using c by simp
qed

text \<open>
  C6. In every reachable state of a peer the number of recorded message events is at
  most \<open>MAX_MSG_EVENTS_PER_TICK = 32\<close>; an event logged into a full buffer is
  discarded: \<open>add_event\<close> returns the buffer as it was.
\<close>

theorem event_buffer_bounded:
  "MAX_MSG_EVENTS_PER_TICK = 32 \<and>
   (reachable R n \<longrightarrow>
      count (msg_buffer n) \<le> MAX_MSG_EVENTS_PER_TICK \<and>
      length (recorded (msg_buffer n)) \<le> 32) \<and>
   (count b \<ge> MAX_MSG_EVENTS_PER_TICK \<longrightarrow> add_event t ty s d dr rc b = b)"
  using reachable_buf_ok [of R n]
  by (auto simp: buf_ok_def recorded_def add_event_def MAX_MSG_EVENTS_PER_TICK_def)

text \<open>
  The witness: peer 34 of 34 believes itself leader from the start, so its first
  \<open>tick_send\<close> broadcasts a heartbeat to 33 peers. The buffer holds 32 events after
  it, and one more event leaves it unchanged.
\<close>

theorem event_buffer_bounded_witness:
  "reachable demo_rng (the (tick_send demo_rng 0 (fresh_peer 34 34))) \<and>
   length (mpi_sent (the (tick_send demo_rng 0 (fresh_peer 34 34)))) = 33 \<and>
   count (msg_buffer (the (tick_send demo_rng 0 (fresh_peer 34 34)))) = 32 \<and>
   count (msg_buffer (the (tick_send demo_rng 0 (fresh_peer 34 34)))) \<le> MAX_MSG_EVENTS_PER_TICK \<and>
   add_event 0 HEARTBEAT 34 33 False False
       (msg_buffer (the (tick_send demo_rng 0 (fresh_peer 34 34))))
     = msg_buffer (the (tick_send demo_rng 0 (fresh_peer 34 34)))"
proof -
  let ?n = "the (tick_send demo_rng 0 (fresh_peer 34 34))"
  have "tick_send demo_rng 0 (fresh_peer 34 34) \<noteq> None" by code_simp
  then have "tick_send demo_rng 0 (fresh_peer 34 34) = Some ?n" by simp
  with fresh_peer_reachable [of 34 34] have r: "reachable demo_rng ?n"
    by (simp add: r_send)
  have c: "count (msg_buffer ?n) = 32" by code_simp
  have l: "length (mpi_sent ?n) = 33" by code_simp
  from event_buffer_bounded [of demo_rng ?n "msg_buffer ?n" 0 HEARTBEAT 34 33 False False] r c l
  show ?thesis by (simp add: MAX_MSG_EVENTS_PER_TICK_def)
qed

text \<open>
  C5. \<open>tick_end\<close> runs the leader-liveness check, the COORDINATOR-wait check and the
  victory check in that order. A check whose conditions do not hold leaves the peer as
  it is, a check that fires logs its line, and in every state at most one of the three
  takes effect: when the first fires neither of the others does, and when the second
  fires the third does not.
\<close>

theorem tick_end_checks_exclusive:
  "tick_end t n = victory_check t (coordinator_wait_check t (hb_timeout_check t n)) \<and>
   (\<not> hb_timeout_fires t n \<longrightarrow> hb_timeout_check t n = n) \<and>
   (\<not> coordinator_wait_fires t n \<longrightarrow> coordinator_wait_check t n = n) \<and>
   (\<not> victory_fires t n \<longrightarrow> victory_check t n = n) \<and>
   (hb_timeout_fires t n \<longrightarrow>
      debug_messages (hb_timeout_check t n) = debug_messages n @ [DbgHbTimeout]) \<and>
   (coordinator_wait_fires t n \<longrightarrow>
      debug_messages (coordinator_wait_check t n) = debug_messages n @ [DbgCoordTimeout]) \<and>
   (victory_fires t n \<longrightarrow>
      debug_messages (victory_check t n)
        = debug_messages n @ [DbgWonElection, DbgCoordinatorToAll]) \<and>
   (hb_timeout_fires t n \<longrightarrow>
      \<not> coordinator_wait_fires t (hb_timeout_check t n) \<and>
      \<not> victory_fires t (coordinator_wait_check t (hb_timeout_check t n))) \<and>
   (coordinator_wait_fires t (hb_timeout_check t n) \<longrightarrow>
      \<not> victory_fires t (coordinator_wait_check t (hb_timeout_check t n))) \<and>
   length (filter id
     [hb_timeout_fires t n,
      coordinator_wait_fires t (hb_timeout_check t n),
      victory_fires t (coordinator_wait_check t (hb_timeout_check t n))]) \<le> 1"
proof -
  have n1: "hb_timeout_check t n = n" if "\<not> hb_timeout_fires t n"
    using that by (auto simp: hb_timeout_check_def hb_timeout_fires_def)
  have n2: "coordinator_wait_check t n = n" if "\<not> coordinator_wait_fires t n"
    using that by (simp add: coordinator_wait_check_def coordinator_wait_fires_def)
  have n3: "victory_check t n = n" if "\<not> victory_fires t n"
    using that by (simp add: victory_check_def victory_fires_def)
  have a: "\<not> coordinator_wait_fires t (hb_timeout_check t n) \<and>
      \<not> victory_fires t (coordinator_wait_check t (hb_timeout_check t n))"
    if "hb_timeout_fires t n"
    using that
    by (simp add: hb_timeout_check_def coordinator_wait_check_def coordinator_wait_fires_def
        victory_fires_def hb_timeout_fires_def debug_print_def)
  have b: "\<not> victory_fires t (coordinator_wait_check t (hb_timeout_check t n))"
    if "coordinator_wait_fires t (hb_timeout_check t n)"
    using that
    by (simp add: coordinator_wait_check_def coordinator_wait_fires_def victory_fires_def
        debug_print_def)
  have c: "length (filter id [A, B, C]) \<le> 1" if "A \<Longrightarrow> \<not> B \<and> \<not> C" "B \<Longrightarrow> \<not> C"
    for A B C :: bool
    using that by (cases A; cases B; cases C) simp_all
  have f1: "debug_messages (hb_timeout_check t n) = debug_messages n @ [DbgHbTimeout]"
    if "hb_timeout_fires t n"
    using that by (simp add: hb_timeout_check_def hb_timeout_fires_def debug_print_def)
  have f2: "debug_messages (coordinator_wait_check t n) = debug_messages n @ [DbgCoordTimeout]"
    if "coordinator_wait_fires t n"
    using that by (simp add: coordinator_wait_check_def coordinator_wait_fires_def debug_print_def)
  have f3: "debug_messages (victory_check t n)
        = debug_messages n @ [DbgWonElection, DbgCoordinatorToAll]"
    if "victory_fires t n"
    using that
    by (simp add: victory_check_def victory_fires_def debug_print_def Let_def
        debug_messages_broadcast_to_nodes)
  show ?thesis
    using n1 n2 n3 f1 f2 f3 a b c [OF a b] by (simp add: tick_end_def)
qed

text \<open>
  The witness: a fresh peer at tick 0 (no check fires, \<open>tick_end\<close> changes nothing),
  a follower whose last heartbeat is three ticks old (the first check fires), and a peer that waits for a COORDINATOR while its own election is running:
  the wait has timed out, so the second check fires, and the victory check, whose
  conditions held before, no longer fires.
\<close>

theorem tick_end_checks_exclusive_witness:
  "\<not> hb_timeout_fires 0 (fresh_peer 3 5) \<and> \<not> coordinator_wait_fires 0 (fresh_peer 3 5) \<and>
   \<not> victory_fires 0 (fresh_peer 3 5) \<and> tick_end 0 (fresh_peer 3 5) = fresh_peer 3 5 \<and>
   hb_timeout_fires 3 late_follower \<and>
   \<not> coordinator_wait_fires 3 (hb_timeout_check 3 late_follower) \<and>
   \<not> victory_fires 3 (coordinator_wait_check 3 (hb_timeout_check 3 late_follower)) \<and>
   victory_fires 11 waiting_candidate \<and>
   coordinator_wait_fires 11 (hb_timeout_check 11 waiting_candidate) \<and>
   \<not> victory_fires 11 (coordinator_wait_check 11 (hb_timeout_check 11 waiting_candidate))"
proof -
  have 1: "hb_timeout_fires 3 late_follower"
    by (simp add: late_follower_def hb_timeout_fires_def eval_defs)
  have 2: "coordinator_wait_fires 11 (hb_timeout_check 11 waiting_candidate)"
    by (simp add: waiting_candidate_def hb_timeout_check_def hb_timeout_fires_def
        coordinator_wait_fires_def eval_defs)
  have 3: "victory_fires 11 waiting_candidate"
    by (simp add: waiting_candidate_def victory_fires_def eval_defs)
  from tick_end_checks_exclusive [of 3 late_follower] 1
  have 4: "\<not> coordinator_wait_fires 3 (hb_timeout_check 3 late_follower) \<and>
   \<not> victory_fires 3 (coordinator_wait_check 3 (hb_timeout_check 3 late_follower))"
    by (elim conjE) simp
  from tick_end_checks_exclusive [of 11 waiting_candidate] 2
  have 5: "\<not> victory_fires 11 (coordinator_wait_check 11 (hb_timeout_check 11 waiting_candidate))"
    by (elim conjE) simp
  have 6: "\<not> hb_timeout_fires 0 (fresh_peer 3 5)" "\<not> coordinator_wait_fires 0 (fresh_peer 3 5)"
    "\<not> victory_fires 0 (fresh_peer 3 5)"
    by (simp_all add: hb_timeout_fires_def coordinator_wait_fires_def victory_fires_def
        fresh_peer_def Node_def)
  from tick_end_checks_exclusive [of 0 "fresh_peer 3 5"] 6
  have 7: "tick_end 0 (fresh_peer 3 5) = fresh_peer 3 5"
    by (elim conjE) simp
  from 1 2 3 4 5 6 7 show ?thesis by simp
qed



text \<open>
  C1 (the code departs from the claim). Peer 3 of 5 loses the heartbeat, starts an
  election at tick 4, receives OK from peer 4 at tick 5 and waits; the ELECTION of
  peer 2 at tick 6 sets \<open>election_active\<close> while \<open>waiting_for_coordinator\<close> is still
  set, and at tick 7 the peer sends its ELECTION messages again. The triples are
  \<open>(waiting_for_coordinator, election_active, election_started)\<close> at the harvest of
  the ticks 0 to 7.
\<close>

theorem election_restarted_while_waiting:
  "map_option (map (\<lambda>n. (waiting_for_coordinator n, election_active n, election_started n)))
     (worker_loop demo_rng 0
        [[msg HEARTBEAT 0 5 (- 1)], [], [], [], [], [msg OK 5 4 3],
         [msg ELECTION 6 2 (- 1)], []]
        (fresh_peer 3 5, NoFailure))
   = Some [(False, False, False), (False, False, False), (False, False, False),
           (False, True, False), (False, True, True), (True, False, False),
           (True, True, False), (True, True, True)]"
  by (simp add: eval_defs)

text \<open>
  C2 (the code departs from the claim). Peer 5 of 5 receives the ELECTION of peer 3
  at tick 4 and starts its own election in \<open>tick_send\<close> of tick 5, where it logs that
  no higher peer exists. It stays in the election through the ticks 5 to 8 and sends
  COORDINATOR (four send events) only at tick 9, when
  \<open>tick - election_start_tick > election_timeout_ticks = 3\<close>. The entries are
  \<open>election_active\<close>, \<open>election_started\<close>, whether the line "no higher nodes: winning
  immediately" was logged, and the number of COORDINATOR events, at the harvest of the
  ticks 0 to 9.
\<close>

theorem highest_uid_waits_for_timeout:
  "map_option
     (map (\<lambda>n. (election_active n, election_started n,
                 DbgNoHigherNodes \<in> set (debug_messages n),
                 length (filter (\<lambda>e. e_type e = COORDINATOR) (recorded (msg_buffer n))))))
     (worker_loop demo_rng 0
        [[], [], [], [], [msg ELECTION 4 3 (- 1)], [], [], [], [], []]
        (fresh_peer 5 5, NoFailure))
   = Some [(False, False, False, 0), (False, False, False, 0), (False, False, False, 0),
           (False, False, False, 0), (True, False, False, 0), (True, True, True, 0),
           (True, True, False, 0), (True, True, False, 0), (True, True, False, 0),
           (False, False, False, 4)]"
  by (simp add: eval_defs buffer_eval)

text \<open>
  C7, as stated, fails: a peer whose offline counter is 1 is online again in the tick
  that decrements it. Here the failure model goes offline at tick 0 for one tick
  (counter 1, \<open>can_communicate\<close> false); at tick 1 the counter is positive, is
  decremented, and \<open>can_communicate\<close> reports true.
\<close>

theorem offline_counter_one_is_online:
  "map_option (\<lambda>f. (offline_remaining f, NetworkFailure_can_communicate f))
     (NetworkFailure_tick demo_rng 0 failing_link) = Some (1, False) \<and>
   map_option (\<lambda>f. (offline_remaining f, NetworkFailure_can_communicate f))
     (Option.bind (NetworkFailure_tick demo_rng 0 failing_link) (NetworkFailure_tick demo_rng 1))
     = Some (0, True)"
  by (simp add: failing_link_def new_NetworkFailure_def default_NetworkFailureConfig_def
      NetworkFailure_tick_def NetworkFailure_can_communicate_def demo_rng_def fixed_rng_def)


text \<open>
  C7, amended. A positive offline counter is decremented and no trial is drawn; the
  peer is then reported online exactly when the counter was 1. Otherwise one uniform
  draw \<open>u\<close> is compared with \<open>p = p_fail * leader_fail_multiplier\<close> if the peer
  believed itself leader, \<open>p_fail\<close> if not: when \<open>u < p\<close> the counter becomes
  \<open>offline_durations[idx]\<close> for the categorical index \<open>idx\<close> drawn over
  \<open>offline_weights\<close>, and when not, only the engine advances. The worker loop sets the
  leader flag to \<open>leader_uid = uid\<close> before it advances the model.
\<close>

theorem NetworkFailure_tick_behaviour:
  "(0 < offline_remaining f \<longrightarrow>
      NetworkFailure_tick R t f = Some (f\<lparr>offline_remaining := offline_remaining f - 1\<rparr>) \<and>
      (NetworkFailure_can_communicate (f\<lparr>offline_remaining := offline_remaining f - 1\<rparr>)
         \<longleftrightarrow> offline_remaining f = 1)) \<and>
   (offline_remaining f \<le> 0 \<longrightarrow>
      (let p = (if is_leader f then p_fail (nf_cfg f) * leader_fail_multiplier (nf_cfg f)
                else p_fail (nf_cfg f));
           u = fst (uniform_real R (nf_rng f));
           g1 = snd (uniform_real R (nf_rng f));
           idx = fst (discrete R (offline_weights (nf_cfg f)) g1);
           g2 = snd (discrete R (offline_weights (nf_cfg f)) g1)
       in (\<not> u < p \<longrightarrow> NetworkFailure_tick R t f = Some (f\<lparr>nf_rng := g1\<rparr>)) \<and>
          (u < p \<and> idx < length (offline_durations (nf_cfg f)) \<longrightarrow>
             NetworkFailure_tick R t f =
               Some (f\<lparr>nf_rng := g2, offline_remaining := offline_durations (nf_cfg f) ! idx\<rparr>)))) \<and>
   advance_failure R t n (Network f) =
     map_option Network (NetworkFailure_tick R t (set_is_leader (leader_uid n = uid n) f))"
  by (auto simp: NetworkFailure_tick_def NetworkFailure_can_communicate_def advance_failure_def
      Failure_tick_def Let_def split: prod.splits)


theorem NetworkFailure_tick_behaviour_witness:
  "0 < offline_remaining (failing_link\<lparr>offline_remaining := 2\<rparr>) \<and>
   NetworkFailure_tick demo_rng 0 (failing_link\<lparr>offline_remaining := 2\<rparr>)
     = Some (failing_link\<lparr>offline_remaining := 1\<rparr>) \<and>
   \<not> NetworkFailure_can_communicate (failing_link\<lparr>offline_remaining := 1\<rparr>) \<and>
   offline_remaining failing_link \<le> 0 \<and>
   fst (uniform_real demo_rng (nf_rng failing_link)) < p_fail (nf_cfg failing_link) \<and>
   NetworkFailure_tick demo_rng 0 failing_link
     = Some (failing_link\<lparr>nf_rng := 2, offline_remaining := 1\<rparr>) \<and>
   \<not> fst (uniform_real demo_rng (nf_rng failing_link))
       < p_fail (nf_cfg (failing_link\<lparr>nf_cfg := default_NetworkFailureConfig\<rparr>)) \<and>
   NetworkFailure_tick demo_rng 0 (failing_link\<lparr>nf_cfg := default_NetworkFailureConfig\<rparr>)
     = Some (failing_link\<lparr>nf_cfg := default_NetworkFailureConfig, nf_rng := 1\<rparr>)"
proof -
  have e: "failing_link =
      \<lparr>nf_uid = 3, nf_cfg = default_NetworkFailureConfig\<lparr>p_fail := 1\<rparr>, nf_rng = 0,
       offline_remaining = 0, is_leader = False\<rparr>"
    by (simp add: failing_link_def new_NetworkFailure_def demo_rng_def fixed_rng_def)
  have d: "uniform_real demo_rng g = (1 / 2, Suc g)" "discrete demo_rng w g = (0, Suc g)" for g w
    by (simp_all add: demo_rng_def fixed_rng_def)
  from NetworkFailure_tick_behaviour
         [of "failing_link\<lparr>offline_remaining := 2\<rparr>" demo_rng 0 "fresh_peer 3 5"]
  have 1: "NetworkFailure_tick demo_rng 0 (failing_link\<lparr>offline_remaining := 2\<rparr>)
             = Some (failing_link\<lparr>offline_remaining := 1\<rparr>) \<and>
           \<not> NetworkFailure_can_communicate (failing_link\<lparr>offline_remaining := 1\<rparr>)"
    by (simp add: e)
  from NetworkFailure_tick_behaviour [of failing_link demo_rng 0 "fresh_peer 3 5"]
  have 2: "NetworkFailure_tick demo_rng 0 failing_link
             = Some (failing_link\<lparr>nf_rng := 2, offline_remaining := 1\<rparr>)"
    by (simp add: e d default_NetworkFailureConfig_def Let_def)
  from NetworkFailure_tick_behaviour
         [of "failing_link\<lparr>nf_cfg := default_NetworkFailureConfig\<rparr>" demo_rng 0 "fresh_peer 3 5"]
  have 3: "NetworkFailure_tick demo_rng 0 (failing_link\<lparr>nf_cfg := default_NetworkFailureConfig\<rparr>)
             = Some (failing_link\<lparr>nf_cfg := default_NetworkFailureConfig, nf_rng := 1\<rparr>)"
    by (simp add: e d default_NetworkFailureConfig_def Let_def)
  from 1 2 3 show ?thesis
    by (simp add: e d default_NetworkFailureConfig_def)
qed

text \<open>
  C9. In every reachable state, every receive event in the buffer has \<open>dropped = 0\<close>:
  only send events can carry the flag. \<open>log_recv\<close> writes the event with
  \<open>dropped = 0\<close>, and a peer that cannot communicate still records one receive event
  per drained message while nothing else of its state changes (the message is not
  handled).
\<close>

theorem recv_events_never_dropped:
  "(reachable R n \<longrightarrow>
      (\<forall>e \<in> set (recorded (msg_buffer n)). e_direction e = 1 \<longrightarrow> e_dropped e = 0)) \<and>
   (buf_ok b \<and> count b < MAX_MSG_EVENTS_PER_TICK \<longrightarrow>
      recorded (log_recv t m b) =
        recorded b @ [\<lparr>e_tick = t, e_type = m_type m, e_src_uid = m_src_uid m,
                       e_dst_uid = m_dst_uid m, e_dropped = 0, e_direction = 1\<rparr>]) \<and>
   (\<not> can_communicate n \<longrightarrow>
      drain_incoming R t inbox n =
        n\<lparr>msg_buffer := fold (log_recv t) (take (nat (max_recv_per_tick (cfg n))) inbox)
                            (msg_buffer n)\<rparr>)"
proof -
  let ?P = "\<lambda>b. buf_ok b \<and> (\<forall>e \<in> set (recorded b). e_direction e = 1 \<longrightarrow> e_dropped e = 0)"
  have "?P (msg_buffer n)" if "reachable R n"
  proof (rule reachable_buffer [where P = ?P, OF _ _ _ _ that])
    show "?P new_buffer"
      by (simp add: buf_ok_new_buffer recorded_new_buffer)
    show "?P (clear b)" if "?P b" for b
      using that by (simp add: buf_ok_clear recorded_clear)
    show "?P (log_send t m d dr b)" if "?P b" for t m d dr b
      using that by (simp add: log_send_def buf_ok_add_event recorded_add_event)
    show "?P (log_recv t m b)" if "?P b" for t m b
      using that by (simp add: log_recv_def buf_ok_add_event recorded_add_event)
  qed
  moreover have "recorded (log_recv t m b) =
        recorded b @ [\<lparr>e_tick = t, e_type = m_type m, e_src_uid = m_src_uid m,
                       e_dst_uid = m_dst_uid m, e_dropped = 0, e_direction = 1\<rparr>]"
    if "buf_ok b" "count b < MAX_MSG_EVENTS_PER_TICK"
    using that by (simp add: log_recv_def recorded_add_event)
  moreover have "drain_incoming R t inbox n =
        n\<lparr>msg_buffer := fold (log_recv t) (take (nat (max_recv_per_tick (cfg n))) inbox)
                            (msg_buffer n)\<rparr>"
    if "\<not> can_communicate n"
    using drain_loop_offline [OF that, of R t 0 inbox] by (simp add: drain_incoming_def)
  ultimately show ?thesis by blast
qed

text \<open>
  The witness: peer 3 of 5, offline, drains an ELECTION of peer 2. The state is
  reachable, only the buffer changed, and the one recorded event is the receive event
  with \<open>dropped = 0\<close>.
\<close>

theorem recv_events_never_dropped_witness:
  "reachable demo_rng (tick_recv demo_rng 6 [msg ELECTION 6 2 (- 1)] offline_peer) \<and>
   \<not> can_communicate offline_peer \<and>
   buf_ok (msg_buffer offline_peer) \<and> count (msg_buffer offline_peer) < MAX_MSG_EVENTS_PER_TICK \<and>
   tick_recv demo_rng 6 [msg ELECTION 6 2 (- 1)] offline_peer =
     offline_peer\<lparr>msg_buffer := log_recv 6 (msg ELECTION 6 2 (- 1)) (msg_buffer offline_peer)\<rparr> \<and>
   recorded (msg_buffer (tick_recv demo_rng 6 [msg ELECTION 6 2 (- 1)] offline_peer)) =
     [\<lparr>e_tick = 6, e_type = ELECTION, e_src_uid = 2, e_dst_uid = - 1, e_dropped = 0,
       e_direction = 1\<rparr>]"
proof -
  let ?n = "tick_recv demo_rng 6 [msg ELECTION 6 2 (- 1)] offline_peer"
  have r0: "reachable demo_rng offline_peer"
    unfolding offline_peer_def by (rule r_set_can) (simp add: fresh_peer_reachable)
  then have r: "reachable demo_rng ?n" by (rule r_recv)
  have c: "\<not> can_communicate offline_peer"
    by (simp add: offline_peer_def set_can_communicate_def)
  have b: "buf_ok (msg_buffer offline_peer)" "count (msg_buffer offline_peer) < MAX_MSG_EVENTS_PER_TICK"
    "recorded (msg_buffer offline_peer) = []" "max_recv_per_tick (cfg offline_peer) = 64"
    by (simp_all add: offline_peer_def eval_defs buffer_eval)
  note t = recv_events_never_dropped
             [of demo_rng offline_peer "msg_buffer offline_peer" 6 "msg ELECTION 6 2 (- 1)"
                 "[msg ELECTION 6 2 (- 1)]"]
  from t c b have d: "?n = offline_peer\<lparr>msg_buffer :=
      log_recv 6 (msg ELECTION 6 2 (- 1)) (msg_buffer offline_peer)\<rparr>"
    by (simp add: tick_recv_def)
  from t b have e: "recorded (log_recv 6 (msg ELECTION 6 2 (- 1)) (msg_buffer offline_peer)) =
     [\<lparr>e_tick = 6, e_type = ELECTION, e_src_uid = 2, e_dst_uid = - 1, e_dropped = 0,
       e_direction = 1\<rparr>]"
    by (simp add: msg_def)
  from r c b d e show ?thesis by simp
qed


text \<open>
  C3, as stated, fails: it is to hold regardless of \<open>can_communicate\<close>, but a peer that
  cannot communicate does not handle the message. Peer 3 of 5, offline, drains an
  ELECTION of peer 2: the log holds the receive event and no OK event.
\<close>

theorem election_without_ok_when_offline:
  "\<not> can_communicate offline_peer \<and>
   map event_key (recorded (msg_buffer
     (tick_recv demo_rng 6 [msg ELECTION 6 2 (- 1)] offline_peer)))
     = [(6, ELECTION, 2, - 1, 1)]"
  by (simp add: offline_peer_def event_key_def eval_defs buffer_eval)

text \<open>
  C3, amended. While the peer can communicate, the log after \<open>drain_incoming\<close> is the
  first 32 entries of: the log before, then for every drained message, in order, its
  receive event followed, when the message is an ELECTION, by exactly one OK send
  event from this peer to the sender of the ELECTION (and by one ACK when it is a
  PING). In particular an ELECTION drained with room for two more events adds exactly
  its receive event and one OK event. While the peer cannot communicate, the drained
  messages add their receive events and nothing else. The \<open>dropped\<close> flag of the
  events is left open (\<open>event_key\<close> omits it). The hypothesis \<open>buf_ok\<close> holds in every
  reachable state (\<open>reachable_buf_ok\<close>).
\<close>

theorem election_gets_one_ok:
  "(buf_ok (msg_buffer n) \<and> can_communicate n \<longrightarrow>
      map event_key (recorded (msg_buffer (drain_incoming R t inbox n))) =
        take 32 (map event_key (recorded (msg_buffer n))
                 @ concat (map (drain_events t (uid n))
                             (take (nat (max_recv_per_tick (cfg n))) inbox)))) \<and>
   (buf_ok (msg_buffer n) \<and> can_communicate n \<and> m_type m = ELECTION
      \<and> count (msg_buffer n) + 2 \<le> MAX_MSG_EVENTS_PER_TICK \<and> 0 < max_recv_per_tick (cfg n) \<longrightarrow>
      map event_key (recorded (msg_buffer (drain_incoming R t [m] n))) =
        map event_key (recorded (msg_buffer n))
        @ [(t, ELECTION, m_src_uid m, m_dst_uid m, 1), (t, OK, uid n, m_src_uid m, 0)]) \<and>
   (buf_ok (msg_buffer n) \<and> \<not> can_communicate n \<longrightarrow>
      map event_key (recorded (msg_buffer (drain_incoming R t inbox n))) =
        take 32 (map event_key (recorded (msg_buffer n))
                 @ map (\<lambda>m. (t, m_type m, m_src_uid m, m_dst_uid m, 1))
                     (take (nat (max_recv_per_tick (cfg n))) inbox)))"
proof -
  have a: "map event_key (recorded (msg_buffer (drain_incoming R t inbox n))) =
        take 32 (map event_key (recorded (msg_buffer n))
                 @ concat (map (drain_events t (uid n))
                             (take (nat (max_recv_per_tick (cfg n))) inbox)))"
    if "buf_ok (msg_buffer n)" "can_communicate n" for inbox
    using drain_loop_keys [OF that, of R t 0 inbox] by (simp add: drain_incoming_def)
  have b: "map event_key (recorded (msg_buffer (drain_incoming R t [m] n))) =
        map event_key (recorded (msg_buffer n))
        @ [(t, ELECTION, m_src_uid m, m_dst_uid m, 1), (t, OK, uid n, m_src_uid m, 0)]"
    if "buf_ok (msg_buffer n)" "can_communicate n" "m_type m = ELECTION"
      "count (msg_buffer n) + 2 \<le> MAX_MSG_EVENTS_PER_TICK" "0 < max_recv_per_tick (cfg n)"
  proof -
    have "take (nat (max_recv_per_tick (cfg n))) [m] = [m]"
      using that(5) by (simp add: take_Cons')
    moreover have "length (recorded (msg_buffer n)) + 2 \<le> 32"
      using that(1,4) length_recorded [OF that(1)]
      by (simp add: MAX_MSG_EVENTS_PER_TICK_def)
    ultimately show ?thesis
      using a [OF that(1,2), of "[m]"] that(3) by (simp add: drain_events_def)
  qed
  have c: "map event_key (recorded (msg_buffer (drain_incoming R t inbox n))) =
        take 32 (map event_key (recorded (msg_buffer n))
                 @ map (\<lambda>m. (t, m_type m, m_src_uid m, m_dst_uid m, 1))
                     (take (nat (max_recv_per_tick (cfg n))) inbox))"
    if "buf_ok (msg_buffer n)" "\<not> can_communicate n"
    using drain_loop_offline [OF that(2), of R t 0 inbox] fold_log_recv_keys [OF that(1)]
    by (simp add: drain_incoming_def)
  from a b c show ?thesis by blast
qed

theorem election_gets_one_ok_witness:
  "buf_ok (msg_buffer (fresh_peer 3 5)) \<and> can_communicate (fresh_peer 3 5) \<and>
   m_type (msg ELECTION 6 2 (- 1)) = ELECTION \<and>
   count (msg_buffer (fresh_peer 3 5)) + 2 \<le> MAX_MSG_EVENTS_PER_TICK \<and>
   0 < max_recv_per_tick (cfg (fresh_peer 3 5)) \<and>
   map event_key (recorded (msg_buffer
       (drain_incoming demo_rng 6 [msg ELECTION 6 2 (- 1)] (fresh_peer 3 5))))
     = [(6, ELECTION, 2, - 1, 1), (6, OK, 3, 2, 0)] \<and>
   buf_ok (msg_buffer offline_peer) \<and> \<not> can_communicate offline_peer \<and>
   map event_key (recorded (msg_buffer
       (drain_incoming demo_rng 6 [msg ELECTION 6 2 (- 1)] offline_peer)))
     = [(6, ELECTION, 2, - 1, 1)]"
proof -
  have f: "buf_ok (msg_buffer (fresh_peer 3 5))" "can_communicate (fresh_peer 3 5)"
    "count (msg_buffer (fresh_peer 3 5)) + 2 \<le> MAX_MSG_EVENTS_PER_TICK"
    "0 < max_recv_per_tick (cfg (fresh_peer 3 5))" "uid (fresh_peer 3 5) = 3"
    "recorded (msg_buffer (fresh_peer 3 5)) = []"
    by (simp_all add: eval_defs buffer_eval)
  have g: "buf_ok (msg_buffer offline_peer)" "\<not> can_communicate offline_peer"
    "max_recv_per_tick (cfg offline_peer) = 64" "recorded (msg_buffer offline_peer) = []"
    by (simp_all add: offline_peer_def eval_defs buffer_eval)
  have m: "m_type (msg ELECTION 6 2 (- 1)) = ELECTION" "m_src_uid (msg ELECTION 6 2 (- 1)) = 2"
    "m_dst_uid (msg ELECTION 6 2 (- 1)) = - 1"
    by (simp_all add: msg_def)
  from election_gets_one_ok [of "fresh_peer 3 5" demo_rng 6 "[msg ELECTION 6 2 (- 1)]"
         "msg ELECTION 6 2 (- 1)"] f m
  have 1: "map event_key (recorded (msg_buffer
       (drain_incoming demo_rng 6 [msg ELECTION 6 2 (- 1)] (fresh_peer 3 5))))
     = [(6, ELECTION, 2, - 1, 1), (6, OK, 3, 2, 0)]"
    by (elim conjE) simp
  from election_gets_one_ok [of offline_peer demo_rng 6 "[msg ELECTION 6 2 (- 1)]"
         "msg ELECTION 6 2 (- 1)"] g m
  have 2: "map event_key (recorded (msg_buffer
       (drain_incoming demo_rng 6 [msg ELECTION 6 2 (- 1)] offline_peer)))
     = [(6, ELECTION, 2, - 1, 1)]"
    by simp
  from f g m 1 2 show ?thesis by simp
qed


text \<open>
  C4, as stated, fails: a send event is not recorded in every case. Peer 34 of 34
  broadcasts its first heartbeat to the ranks 1 to 33; all 33 messages are handed to
  \<open>MPI_Send\<close>, and the log holds the send events for the ranks 1 to 32 only.
\<close>

theorem send_event_lost_when_buffer_full:
  "map_option (\<lambda>n. (map fst (mpi_sent n), map e_dst_uid (recorded (msg_buffer n))))
     (tick_send demo_rng 0 (fresh_peer 34 34))
   = Some ([1 .. 33], [1 .. 32])"
  by code_simp


text \<open>
  C4, amended. \<open>should_drop_outgoing\<close> is true exactly when \<open>p_drop > 0\<close> and the
  uniform draw is at most \<open>p_drop\<close>. \<open>send_message\<close> with the caller's flag \<open>dropped\<close>
  records, when the buffer holds fewer than 32 events, one send event whose flag is
  \<open>dropped \<or> \<not> can_communicate\<close>, and hands the message to \<open>MPI_Send\<close> exactly when
  that flag is false. At every unicast site (ELECTION in \<open>start_election\<close>, OK and ACK
  in \<open>handle_message\<close>, PING in \<open>maybe_send_random_ping\<close>) the flag is the result of
  \<open>should_drop_outgoing\<close> or \<open>\<not> can_communicate\<close>: the event is logged with it and the
  message is handed to \<open>MPI_Send\<close> exactly when it is false; a site that sends nothing
  leaves log and wire as they were. A broadcast (\<open>broadcast_to_nodes\<close>, and with it
  the HEARTBEAT of \<open>maybe_send_heartbeat\<close> and the COORDINATOR of \<open>victory_check\<close>)
  makes one send per rank of \<open>other_ranks\<close>, in increasing order, each with the flag
  \<open>\<not> can_communicate\<close>: a peer that can communicate hands all of them to
  \<open>MPI_Send\<close>, a peer that cannot hands over none, and the log gains their send events
  up to the bound of 32. The hypothesis \<open>buf_ok\<close> holds in every reachable state
  (\<open>reachable_buf_ok\<close>).
\<close>

theorem send_transport:
  "fst (should_drop_outgoing R n)
     = (0 < p_drop (cfg n) \<and> fst (uniform_real R (rng n)) \<le> p_drop (cfg n)) \<and>
   (buf_ok (msg_buffer n) \<longrightarrow>
      recorded (msg_buffer (send_message m d dr n)) =
        (if count (msg_buffer n) < MAX_MSG_EVENTS_PER_TICK
         then recorded (msg_buffer n) @ [send_event m d (dr \<or> \<not> can_communicate n)]
         else recorded (msg_buffer n))) \<and>
   mpi_sent (send_message m d dr n) =
     (if dr \<or> \<not> can_communicate n then mpi_sent n else mpi_sent n @ [(d, m)]) \<and>
   (uid n < r \<longrightarrow>
      msg_buffer (snd (start_election_step R t m r (sent_any, n))) =
        log_send (m_tick m) m r (fst (should_drop_outgoing R n) \<or> \<not> can_communicate n)
          (msg_buffer n) \<and>
      mpi_sent (snd (start_election_step R t m r (sent_any, n))) =
        (if fst (should_drop_outgoing R n) \<or> \<not> can_communicate n then mpi_sent n
         else mpi_sent n @ [(r, m)])) \<and>
   (m_type m' = ELECTION \<or> m_type m' = PING \<longrightarrow>
      msg_buffer (handle_message R m' t n) =
        log_send t
          \<lparr>m_type = (if m_type m' = ELECTION then OK else ACK), m_tick = t, m_src_uid = uid n,
           m_dst_uid = m_src_uid m', m_leader_uid = leader_uid n,
           m_aux = (if m_type m' = ELECTION then 0 else m_aux m')\<rparr>
          (m_src_uid m') (fst (should_drop_outgoing R n) \<or> \<not> can_communicate n)
          (msg_buffer n)) \<and>
   mpi_sent (handle_message R m' t n) =
     (if (m_type m' = ELECTION \<or> m_type m' = PING)
         \<and> \<not> (fst (should_drop_outgoing R n) \<or> \<not> can_communicate n)
      then mpi_sent n @
             [(m_src_uid m',
               \<lparr>m_type = (if m_type m' = ELECTION then OK else ACK), m_tick = t,
                m_src_uid = uid n, m_dst_uid = m_src_uid m', m_leader_uid = leader_uid n,
                m_aux = (if m_type m' = ELECTION then 0 else m_aux m')\<rparr>)]
      else mpi_sent n) \<and>
   (0 < p_send (cfg n) \<and> fst (uniform_real R (rng n)) < p_send (cfg n) \<and>
    random_peer_loop R (num_nodes n) (rank n) (rank n) (snd (uniform_real R (rng n)))
      = Some (dest, g2) \<longrightarrow>
      map_option (\<lambda>n'. (msg_buffer n', mpi_sent n')) (maybe_send_random_ping R t n) =
        Some (log_send t \<lparr>m_type = PING, m_tick = t, m_src_uid = uid n, m_dst_uid = dest,
                           m_leader_uid = leader_uid n, m_aux = next_msg_id n\<rparr> dest
                ((0 < p_drop (cfg n) \<and> fst (uniform_real R g2) \<le> p_drop (cfg n))
                   \<or> \<not> can_communicate n) (msg_buffer n),
              if (0 < p_drop (cfg n) \<and> fst (uniform_real R g2) \<le> p_drop (cfg n))
                   \<or> \<not> can_communicate n
              then mpi_sent n
              else mpi_sent n @
                     [(dest, \<lparr>m_type = PING, m_tick = t, m_src_uid = uid n, m_dst_uid = dest,
                              m_leader_uid = leader_uid n, m_aux = next_msg_id n\<rparr>)])) \<and>
   (p_send (cfg n) \<le> 0 \<or> p_send (cfg n) \<le> fst (uniform_real R (rng n)) \<longrightarrow>
      map_option (\<lambda>n'. (msg_buffer n', mpi_sent n')) (maybe_send_random_ping R t n) =
        Some (msg_buffer n, mpi_sent n)) \<and>
   mpi_sent (broadcast_to_nodes m n) =
     mpi_sent n @ (if can_communicate n then map (\<lambda>r. (r, m)) (other_ranks n) else []) \<and>
   (buf_ok (msg_buffer n) \<longrightarrow>
      recorded (msg_buffer (broadcast_to_nodes m n)) =
        take 32 (recorded (msg_buffer n)
                 @ map (\<lambda>r. send_event m r (\<not> can_communicate n)) (other_ranks n))) \<and>
   mpi_sent (maybe_send_heartbeat t n) =
     mpi_sent n @
       (if (uid n = leader_uid n \<and> 0 < hb_period_ticks (cfg n)
            \<and> t smod hb_period_ticks (cfg n) = 0) \<and> can_communicate n
        then map (\<lambda>r. (r, \<lparr>m_type = HEARTBEAT, m_tick = t, m_src_uid = uid n, m_dst_uid = - 1,
                            m_leader_uid = uid n, m_aux = 0\<rparr>)) (other_ranks n)
        else []) \<and>
   mpi_sent (victory_check t n) =
     mpi_sent n @
       (if victory_fires t n \<and> can_communicate n
        then map (\<lambda>r. (r, \<lparr>m_type = COORDINATOR, m_tick = t, m_src_uid = uid n,
                            m_dst_uid = - 1, m_leader_uid = uid n, m_aux = 0\<rparr>)) (other_ranks n)
        else []) \<and>
   (buf_ok (msg_buffer n) \<longrightarrow>
      recorded (msg_buffer (maybe_send_heartbeat t n)) =
        take 32 (recorded (msg_buffer n) @
          (if uid n = leader_uid n \<and> 0 < hb_period_ticks (cfg n)
              \<and> t smod hb_period_ticks (cfg n) = 0
           then map (\<lambda>r. send_event \<lparr>m_type = HEARTBEAT, m_tick = t, m_src_uid = uid n,
                                      m_dst_uid = - 1, m_leader_uid = uid n, m_aux = 0\<rparr>
                            r (\<not> can_communicate n)) (other_ranks n)
           else [])) \<and>
      recorded (msg_buffer (victory_check t n)) =
        take 32 (recorded (msg_buffer n) @
          (if victory_fires t n
           then map (\<lambda>r. send_event \<lparr>m_type = COORDINATOR, m_tick = t, m_src_uid = uid n,
                                      m_dst_uid = - 1, m_leader_uid = uid n, m_aux = 0\<rparr>
                            r (\<not> can_communicate n)) (other_ranks n)
           else [])))"
proof -
  have 1: "fst (should_drop_outgoing R n)
     = (0 < p_drop (cfg n) \<and> fst (uniform_real R (rng n)) \<le> p_drop (cfg n))"
    by (simp add: should_drop_outgoing_eq)
  have 2: "recorded (msg_buffer (send_message m d dr n)) =
        (if count (msg_buffer n) < MAX_MSG_EVENTS_PER_TICK
         then recorded (msg_buffer n) @ [send_event m d (dr \<or> \<not> can_communicate n)]
         else recorded (msg_buffer n))"
    if "buf_ok (msg_buffer n)"
    using that
    by (simp add: send_message_def Let_def log_send_def recorded_add_event send_event_def)
  have 4: "msg_buffer (snd (start_election_step R t m r (sent_any, n))) =
        log_send (m_tick m) m r (fst (should_drop_outgoing R n) \<or> \<not> can_communicate n)
          (msg_buffer n)"
    if "uid n < r"
    using that
    by (simp add: start_election_step_def should_drop_outgoing_eq send_message_def Let_def
        debug_print_def)
  have 5: "msg_buffer (handle_message R m' t n) =
        log_send t
          \<lparr>m_type = (if m_type m' = ELECTION then OK else ACK), m_tick = t, m_src_uid = uid n,
           m_dst_uid = m_src_uid m', m_leader_uid = leader_uid n,
           m_aux = (if m_type m' = ELECTION then 0 else m_aux m')\<rparr>
          (m_src_uid m') (fst (should_drop_outgoing R n) \<or> \<not> can_communicate n)
          (msg_buffer n)"
    if "m_type m' = ELECTION \<or> m_type m' = PING"
    using that by (auto simp: msg_buffer_handle_message MsgType_defs)
  have 8: "mpi_sent (maybe_send_heartbeat t n) =
     mpi_sent n @
       (if (uid n = leader_uid n \<and> 0 < hb_period_ticks (cfg n)
            \<and> t smod hb_period_ticks (cfg n) = 0) \<and> can_communicate n
        then map (\<lambda>r. (r, \<lparr>m_type = HEARTBEAT, m_tick = t, m_src_uid = uid n, m_dst_uid = - 1,
                            m_leader_uid = uid n, m_aux = 0\<rparr>)) (other_ranks n)
        else [])"
    by (simp add: maybe_send_heartbeat_def Let_def mpi_sent_broadcast_to_nodes)
  have 9: "mpi_sent (victory_check t n) =
     mpi_sent n @
       (if victory_fires t n \<and> can_communicate n
        then map (\<lambda>r. (r, \<lparr>m_type = COORDINATOR, m_tick = t, m_src_uid = uid n,
                            m_dst_uid = - 1, m_leader_uid = uid n, m_aux = 0\<rparr>)) (other_ranks n)
        else [])"
    by (simp add: victory_check_def victory_fires_def Let_def mpi_sent_broadcast_to_nodes)
  have 10: "recorded (msg_buffer (maybe_send_heartbeat t n)) =
        take 32 (recorded (msg_buffer n) @
          (if uid n = leader_uid n \<and> 0 < hb_period_ticks (cfg n)
              \<and> t smod hb_period_ticks (cfg n) = 0
           then map (\<lambda>r. send_event \<lparr>m_type = HEARTBEAT, m_tick = t, m_src_uid = uid n,
                                      m_dst_uid = - 1, m_leader_uid = uid n, m_aux = 0\<rparr>
                            r (\<not> can_communicate n)) (other_ranks n)
           else []))"
    if "buf_ok (msg_buffer n)"
    using that length_recorded_le [OF that]
    by (simp add: maybe_send_heartbeat_def Let_def recorded_broadcast_to_nodes
        del: take_append)
  have 11: "recorded (msg_buffer (victory_check t n)) =
        take 32 (recorded (msg_buffer n) @
          (if victory_fires t n
           then map (\<lambda>r. send_event \<lparr>m_type = COORDINATOR, m_tick = t, m_src_uid = uid n,
                                      m_dst_uid = - 1, m_leader_uid = uid n, m_aux = 0\<rparr>
                            r (\<not> can_communicate n)) (other_ranks n)
           else []))"
    if "buf_ok (msg_buffer n)"
    using that length_recorded_le [OF that]
    by (simp add: victory_check_def victory_fires_def Let_def recorded_broadcast_to_nodes
        del: take_append)
  show ?thesis
    using 1 2 4 5 8 9 10 11 mpi_sent_send_message [of m d dr n]
      mpi_sent_start_election_step [of n r R t m sent_any]
      mpi_sent_handle_message [of R m' t n]
      ping_exact [of n R dest g2 t] ping_silent [of n R t]
      mpi_sent_broadcast_to_nodes [of m n] recorded_broadcast_to_nodes [of n m]
    by blast
qed


text \<open>
  The witness: peer 3 of 5 with every drop trial succeeding (\<open>chatty_peer\<close>: the
  unicasts are logged and not sent), with no drops (\<open>fresh_peer 3 5\<close>: they are sent),
  and offline (\<open>offline_peer\<close>: its broadcast is logged as dropped and nothing is
  sent); peer 5 of 5 sending its heartbeat, and \<open>waiting_candidate\<close> announcing its
  victory.
\<close>

theorem send_transport_witness:
  "buf_ok (msg_buffer chatty_peer) \<and> uid chatty_peer < 4 \<and>
   fst (should_drop_outgoing demo_rng chatty_peer) \<and>
   recorded (msg_buffer (send_message (msg ELECTION 4 3 (- 1)) 4 False chatty_peer))
     = [send_event (msg ELECTION 4 3 (- 1)) 4 False] \<and>
   mpi_sent (send_message (msg ELECTION 4 3 (- 1)) 4 False chatty_peer)
     = [(4, msg ELECTION 4 3 (- 1))] \<and>
   mpi_sent (send_message (msg ELECTION 4 3 (- 1)) 4 True chatty_peer) = [] \<and>
   mpi_sent (snd (start_election_step demo_rng 4 (msg ELECTION 4 3 (- 1)) 4 (False, chatty_peer)))
     = [] \<and>
   uid (fresh_peer 3 5) < 4 \<and>
   mpi_sent (snd (start_election_step demo_rng 4 (msg ELECTION 4 3 (- 1)) 4
                    (False, fresh_peer 3 5)))
     = [(4, msg ELECTION 4 3 (- 1))] \<and>
   m_type (msg ELECTION 6 2 (- 1)) = ELECTION \<and>
   mpi_sent (handle_message demo_rng (msg ELECTION 6 2 (- 1)) 6 chatty_peer) = [] \<and>
   mpi_sent (handle_message demo_rng (msg ELECTION 6 2 (- 1)) 6 (fresh_peer 3 5))
     = [(2, \<lparr>m_type = OK, m_tick = 6, m_src_uid = 3, m_dst_uid = 2, m_leader_uid = 5,
             m_aux = 0\<rparr>)] \<and>
   0 < p_send (cfg chatty_peer) \<and>
   fst (uniform_real demo_rng (rng chatty_peer)) < p_send (cfg chatty_peer) \<and>
   random_peer_loop demo_rng (num_nodes chatty_peer) (rank chatty_peer) (rank chatty_peer)
       (snd (uniform_real demo_rng (rng chatty_peer))) = Some (1, 2) \<and>
   map_option mpi_sent (maybe_send_random_ping demo_rng 4 chatty_peer) = Some [] \<and>
   p_send (cfg (fresh_peer 3 5)) \<le> 0 \<and>
   map_option mpi_sent (maybe_send_random_ping demo_rng 4 (fresh_peer 3 5)) = Some [] \<and>
   other_ranks (fresh_peer 3 5) = [1, 2, 4, 5] \<and>
   mpi_sent (broadcast_to_nodes (msg HEARTBEAT 0 3 (- 1)) (fresh_peer 3 5))
     = [(1, msg HEARTBEAT 0 3 (- 1)), (2, msg HEARTBEAT 0 3 (- 1)),
        (4, msg HEARTBEAT 0 3 (- 1)), (5, msg HEARTBEAT 0 3 (- 1))] \<and>
   buf_ok (msg_buffer offline_peer) \<and>
   mpi_sent (broadcast_to_nodes (msg HEARTBEAT 0 3 (- 1)) offline_peer) = [] \<and>
   recorded (msg_buffer (broadcast_to_nodes (msg HEARTBEAT 0 3 (- 1)) offline_peer))
     = [send_event (msg HEARTBEAT 0 3 (- 1)) 1 True, send_event (msg HEARTBEAT 0 3 (- 1)) 2 True,
        send_event (msg HEARTBEAT 0 3 (- 1)) 4 True, send_event (msg HEARTBEAT 0 3 (- 1)) 5 True] \<and>
   map fst (mpi_sent (maybe_send_heartbeat 0 (fresh_peer 5 5))) = [1, 2, 3, 4] \<and>
   victory_fires 11 waiting_candidate \<and>
   map fst (mpi_sent (victory_check 11 waiting_candidate)) = [1, 2, 4, 5]"
proof -
  have f: "buf_ok (msg_buffer chatty_peer)" "uid chatty_peer < 4"
    "count (msg_buffer chatty_peer) < MAX_MSG_EVENTS_PER_TICK" "can_communicate chatty_peer"
    "mpi_sent chatty_peer = []" "recorded (msg_buffer chatty_peer) = []"
    "p_drop (cfg chatty_peer) = 1" "p_send (cfg chatty_peer) = 1"
    "uniform_real demo_rng g = (1 / 2, Suc g)" "leader_uid chatty_peer = 5" "uid chatty_peer = 3"
    "rng chatty_peer = 0" "num_nodes chatty_peer = 5" "rank chatty_peer = 3"
    for g
    by (simp_all add: chatty_peer_def eval_defs buffer_eval)
  have q: "uid (fresh_peer 3 5) = 3" "can_communicate (fresh_peer 3 5)"
    "mpi_sent (fresh_peer 3 5) = []" "p_drop (cfg (fresh_peer 3 5)) = 0"
    "p_send (cfg (fresh_peer 3 5)) = 0" "leader_uid (fresh_peer 3 5) = 5"
    "other_ranks (fresh_peer 3 5) = [1, 2, 4, 5]"
    by (simp_all add: other_ranks_def eval_defs)
  have o: "buf_ok (msg_buffer offline_peer)" "\<not> can_communicate offline_peer"
    "mpi_sent offline_peer = []" "recorded (msg_buffer offline_peer) = []"
    "other_ranks offline_peer = [1, 2, 4, 5]"
    by (simp_all add: offline_peer_def other_ranks_def eval_defs buffer_eval)
  have l: "uid (fresh_peer 5 5) = 5" "leader_uid (fresh_peer 5 5) = 5"
    "hb_period_ticks (cfg (fresh_peer 5 5)) = 1" "can_communicate (fresh_peer 5 5)"
    "mpi_sent (fresh_peer 5 5) = []" "other_ranks (fresh_peer 5 5) = [1, 2, 3, 4]"
    by (simp_all add: other_ranks_def eval_defs)
  have w: "victory_fires 11 waiting_candidate" "can_communicate waiting_candidate"
    "mpi_sent waiting_candidate = []" "other_ranks waiting_candidate = [1, 2, 4, 5]"
    by (simp_all add: waiting_candidate_def victory_fires_def other_ranks_def eval_defs)
  have m: "m_type (msg ELECTION 6 2 (- 1)) = ELECTION" "m_src_uid (msg ELECTION 6 2 (- 1)) = 2"
    "m_tick (msg ELECTION 4 3 (- 1)) = 4"
    by (simp_all add: msg_def)
  have p: "random_peer_loop demo_rng 5 3 3 (Suc 0) = Some (1, 2)"
    by (simp add: random_peer_loop.simps demo_rng_def fixed_rng_def)
  note c1 = send_transport [where R = demo_rng and n = chatty_peer
      and m = "msg ELECTION 4 3 (- 1)" and d = 4 and dr = False and r = 4 and t = 4
      and sent_any = False and m' = "msg ELECTION 6 2 (- 1)" and dest = 1 and ?g2.0 = 2]
  note c2 = send_transport [where R = demo_rng and n = chatty_peer
      and m = "msg ELECTION 4 3 (- 1)" and d = 4 and dr = True and r = 4 and t = 6
      and sent_any = False and m' = "msg ELECTION 6 2 (- 1)" and dest = 1 and ?g2.0 = 2]
  note q1 = send_transport [where R = demo_rng and n = "fresh_peer 3 5"
      and m = "msg ELECTION 4 3 (- 1)" and d = 4 and dr = False and r = 4 and t = 4
      and sent_any = False and m' = "msg ELECTION 6 2 (- 1)" and dest = 1 and ?g2.0 = 2]
  note q2 = send_transport [where R = demo_rng and n = "fresh_peer 3 5"
      and m = "msg HEARTBEAT 0 3 (- 1)" and d = 4 and dr = False and r = 4 and t = 6
      and sent_any = False and m' = "msg ELECTION 6 2 (- 1)" and dest = 1 and ?g2.0 = 2]
  note o1 = send_transport [where R = demo_rng and n = offline_peer
      and m = "msg HEARTBEAT 0 3 (- 1)" and d = 4 and dr = False and r = 4 and t = 0
      and sent_any = False and m' = "msg ELECTION 6 2 (- 1)" and dest = 1 and ?g2.0 = 2]
  note l1 = send_transport [where R = demo_rng and n = "fresh_peer 5 5"
      and m = "msg HEARTBEAT 0 3 (- 1)" and d = 4 and dr = False and r = 4 and t = 0
      and sent_any = False and m' = "msg ELECTION 6 2 (- 1)" and dest = 1 and ?g2.0 = 2]
  note w1 = send_transport [where R = demo_rng and n = waiting_candidate
      and m = "msg HEARTBEAT 0 3 (- 1)" and d = 4 and dr = False and r = 4 and t = 11
      and sent_any = False and m' = "msg ELECTION 6 2 (- 1)" and dest = 1 and ?g2.0 = 2]
  from c1 f have 1: "fst (should_drop_outgoing demo_rng chatty_peer)"
    by (elim conjE) simp
  from c1 f have 2: "recorded (msg_buffer (send_message (msg ELECTION 4 3 (- 1)) 4 False chatty_peer))
     = [send_event (msg ELECTION 4 3 (- 1)) 4 False]"
    "mpi_sent (send_message (msg ELECTION 4 3 (- 1)) 4 False chatty_peer)
     = [(4, msg ELECTION 4 3 (- 1))]"
    by (elim conjE, simp)+
  from c2 f have 3: "mpi_sent (send_message (msg ELECTION 4 3 (- 1)) 4 True chatty_peer) = []"
    by (elim conjE) simp
  from c1 f 1 have 4:
    "mpi_sent (snd (start_election_step demo_rng 4 (msg ELECTION 4 3 (- 1)) 4 (False, chatty_peer)))
     = []"
    by (elim conjE) simp
  from q1 q have 5:
    "mpi_sent (snd (start_election_step demo_rng 4 (msg ELECTION 4 3 (- 1)) 4
                    (False, fresh_peer 3 5)))
     = [(4, msg ELECTION 4 3 (- 1))]"
    by (elim conjE) simp
  from c2 f m 1 have 6:
    "mpi_sent (handle_message demo_rng (msg ELECTION 6 2 (- 1)) 6 chatty_peer) = []"
    by (elim conjE) simp
  from q2 q m have 7:
    "mpi_sent (handle_message demo_rng (msg ELECTION 6 2 (- 1)) 6 (fresh_peer 3 5))
     = [(2, \<lparr>m_type = OK, m_tick = 6, m_src_uid = 3, m_dst_uid = 2, m_leader_uid = 5,
             m_aux = 0\<rparr>)]"
    by (elim conjE) (simp add: MsgType_defs)
  from c1 f p have 8:
    "map_option mpi_sent (maybe_send_random_ping demo_rng 4 chatty_peer) = Some []"
    by (elim conjE) (auto simp: option.map_comp o_def dest!: arg_cong [where f = "map_option snd"])
  from q1 q have 9:
    "map_option mpi_sent (maybe_send_random_ping demo_rng 4 (fresh_peer 3 5)) = Some []"
    by (elim conjE) (auto simp: option.map_comp o_def dest!: arg_cong [where f = "map_option snd"])
  from q2 q have 10:
    "mpi_sent (broadcast_to_nodes (msg HEARTBEAT 0 3 (- 1)) (fresh_peer 3 5))
     = [(1, msg HEARTBEAT 0 3 (- 1)), (2, msg HEARTBEAT 0 3 (- 1)),
        (4, msg HEARTBEAT 0 3 (- 1)), (5, msg HEARTBEAT 0 3 (- 1))]"
    by (elim conjE) simp
  from o1 o have 11:
    "mpi_sent (broadcast_to_nodes (msg HEARTBEAT 0 3 (- 1)) offline_peer) = []"
    "recorded (msg_buffer (broadcast_to_nodes (msg HEARTBEAT 0 3 (- 1)) offline_peer))
     = [send_event (msg HEARTBEAT 0 3 (- 1)) 1 True, send_event (msg HEARTBEAT 0 3 (- 1)) 2 True,
        send_event (msg HEARTBEAT 0 3 (- 1)) 4 True, send_event (msg HEARTBEAT 0 3 (- 1)) 5 True]"
    by (elim conjE, simp)+
  from l1 l have 12: "map fst (mpi_sent (maybe_send_heartbeat 0 (fresh_peer 5 5))) = [1, 2, 3, 4]"
    by (elim conjE) (simp add: signed_modulo_int_def)
  from w1 w have 13: "map fst (mpi_sent (victory_check 11 waiting_candidate)) = [1, 2, 4, 5]"
    by (elim conjE) simp
  from f q o w m p 1 2 3 4 5 6 7 8 9 10 11 12 13 show ?thesis by simp
qed


end
